theory Spec2Isabelle
  imports Main "HOL-Library.Sublist"
begin

section \<open>Python values, strings and exceptions\<close>

text \<open>
  The resolvers of \<^verbatim>\<open>graphql_schema.py\<close> work on lists of dictionaries obtained from the
  GoManage client or from the cache manager. A dictionary is a map from attribute names to
  scalar values. Float attributes (\<^verbatim>\<open>price\<close>, \<^verbatim>\<open>amount\<close>) are never inspected by a
  resolver and are left out of the value type. A Python string is represented by the bytes of
  its UTF-8 encoding; one string occurs inside another exactly when its encoding occurs
  inside the other's, so \<^verbatim>\<open>in\<close> is \<open>sublist\<close>.
\<close>

datatype pyval = PNone | PBool bool | PInt int | PStr string

type_synonym row = "string \<rightharpoonup> pyval"

text \<open>
  A Python exception with the text that \<^verbatim>\<open>str(e)\<close> gives (abbreviated for the two
  built-in ones). \<open>Failure\<close> is any exception raised inside a collaborator (the GoManage
  client or the cache manager).
\<close>

datatype exn = AttributeError string | TypeError string | Failure string

fun str_exn :: "exn \<Rightarrow> string" where
  "str_exn (AttributeError m) = m"
| "str_exn (TypeError m) = m"
| "str_exn (Failure m) = m"

text \<open>Truthiness, as tested by \<^verbatim>\<open>if x\<close>, \<^verbatim>\<open>x or y\<close>.\<close>

fun truthy :: "pyval \<Rightarrow> bool" where
  "truthy PNone = False"
| "truthy (PBool b) = b"
| "truthy (PInt n) = (n \<noteq> 0)"
| "truthy (PStr s) = (s \<noteq> [])"

text \<open>Decimal rendering of an integer, as \<^verbatim>\<open>str(n)\<close> and \<^verbatim>\<open>f"{n}"\<close> give it.\<close>

definition digit_char :: "nat \<Rightarrow> char" where
  "digit_char d = ''0123456789'' ! d"

fun digits :: "nat \<Rightarrow> string" where
  "digits n = (if n < 10 then [digit_char n] else digits (n div 10) @ [digit_char (n mod 10)])"

declare digits.simps [simp del]

definition str_int :: "int \<Rightarrow> string" where
  "str_int i = (if i < 0 then CHR ''-'' # digits (nat (- i)) else digits (nat i))"

text \<open>\<^verbatim>\<open>str(x)\<close>.\<close>

fun py_str :: "pyval \<Rightarrow> string" where
  "py_str PNone = ''None''"
| "py_str (PBool b) = (if b then ''True'' else ''False'')"
| "py_str (PInt n) = str_int n"
| "py_str (PStr s) = s"

text \<open>\<^verbatim>\<open>x == y\<close>: booleans compare as the integers 0 and 1, other kinds never mix.\<close>

fun as_number :: "pyval \<Rightarrow> int option" where
  "as_number (PBool b) = Some (if b then 1 else 0)"
| "as_number (PInt n) = Some n"
| "as_number PNone = None"
| "as_number (PStr s) = None"

definition py_eq :: "pyval \<Rightarrow> pyval \<Rightarrow> bool" where
  "py_eq a b =
     (case (as_number a, as_number b) of
        (Some x, Some y) \<Rightarrow> x = y
      | (None, None) \<Rightarrow> a = b
      | _ \<Rightarrow> False)"

text \<open>
  \<^verbatim>\<open>s.lower()\<close> is Python's built-in lowercasing, which follows the Unicode character
  database. It is not written out: every definition that lowercases takes the function as
  its first argument \<open>str_lower\<close>, and what is proved holds for every such function.
\<close>

text \<open>\<^verbatim>\<open>d.get(k)\<close> and \<^verbatim>\<open>d.get(k, default)\<close>.\<close>

definition dict_get :: "row \<Rightarrow> string \<Rightarrow> pyval" where
  "dict_get d k = (case d k of None \<Rightarrow> PNone | Some v \<Rightarrow> v)"

definition dict_get_default :: "row \<Rightarrow> string \<Rightarrow> pyval \<Rightarrow> pyval" where
  "dict_get_default d k dflt = (case d k of None \<Rightarrow> dflt | Some v \<Rightarrow> v)"

text \<open>\<^verbatim>\<open>search or 'all'\<close>: the absent term and the empty term both become \<^verbatim>\<open>'all'\<close>.\<close>

definition or_all :: "string option \<Rightarrow> string" where
  "or_all search = (case search of None \<Rightarrow> ''all'' | Some s \<Rightarrow> if s = [] then ''all'' else s)"


section \<open>Collaborators\<close>

text \<open>
  The GoManage client is an external collaborator: its four methods are parameters of the
  model. Each either raises or returns. \<^verbatim>\<open>create_customer\<close> returns a value of which
  \<^verbatim>\<open>mutate\<close> only tests the truthiness.
\<close>

record gomanage =
  get_customers :: "int \<Rightarrow> exn + row list"
  get_products :: "int \<Rightarrow> exn + row list"
  get_invoices :: "int \<Rightarrow> string option \<Rightarrow> exn + row list"
  create_customer :: "row \<Rightarrow> exn + pyval"

text \<open>
  Modelled from the spec: the cache manager class (\<^verbatim>\<open>get\<close>, \<^verbatim>\<open>set\<close>, \<^verbatim>\<open>delete\<close>) is not
  part of \<^verbatim>\<open>graphql_schema.py\<close>. The spec describes it as a key/value store with per-entry
  expiry, holding under each key a sequence of records and the time at which it expires.
\<close>

record cache_entry =
  entry_value :: "row list"
  expires_at :: nat

text \<open>
  Modelled from the spec: the condition of the store during a request. When the underlying
  store is unreachable the adapter absorbs the failure: \<^verbatim>\<open>get\<close> answers "not cached" and
  \<^verbatim>\<open>set\<close> stores nothing (\<open>Absorbed\<close>). The resolvers also guard against a manager whose
  call raises (\<open>Escaping\<close>); that case is kept so that their \<^verbatim>\<open>except\<close> branch is
  reachable.
\<close>

datatype store_health = Up | Absorbed | Escaping

text \<open>Modelled from the spec: the store, with its clock (in seconds).\<close>

record cache_store =
  entries :: "string \<rightharpoonup> cache_entry"
  now :: nat
  health :: store_health

text \<open>Modelled from the spec: an entry is visible to \<^verbatim>\<open>get\<close> iff \<open>now < expiresAt\<close>.\<close>

definition visible :: "cache_store \<Rightarrow> string \<Rightarrow> row list option" where
  "visible cm k =
     (case entries cm k of
        None \<Rightarrow> None
      | Some e \<Rightarrow> if now cm < expires_at e then Some (entry_value e) else None)"

text \<open>Modelled from the spec: \<^verbatim>\<open>get(key)\<close> returns the visible value or \<^verbatim>\<open>None\<close>.\<close>

definition cm_get :: "cache_store \<Rightarrow> string \<Rightarrow> exn + row list option" where
  "cm_get cm k =
     (case health cm of
        Up \<Rightarrow> Inr (visible cm k)
      | Absorbed \<Rightarrow> Inr None
      | Escaping \<Rightarrow> Inl (Failure ''cache unavailable''))"

text \<open>
  Modelled from the spec: \<^verbatim>\<open>set(key, value, ttl)\<close> replaces the whole entry; it expires
  \<open>ttl\<close> seconds from now.
\<close>

definition cm_set :: "cache_store \<Rightarrow> string \<Rightarrow> row list \<Rightarrow> nat \<Rightarrow> exn + cache_store" where
  "cm_set cm k v ttl =
     (case health cm of
        Up \<Rightarrow> Inr (cm\<lparr>entries := (entries cm)(k \<mapsto> \<lparr>entry_value = v, expires_at = now cm + ttl\<rparr>)\<rparr>)
      | Absorbed \<Rightarrow> Inr cm
      | Escaping \<Rightarrow> Inl (Failure ''cache unavailable''))"

text \<open>Modelled from the spec: \<^verbatim>\<open>delete(key)\<close> removes the entry.\<close>

definition cm_delete :: "cache_store \<Rightarrow> string \<Rightarrow> exn + cache_store" where
  "cm_delete cm k =
     (case health cm of
        Up \<Rightarrow> Inr (cm\<lparr>entries := (entries cm)(k := None)\<rparr>)
      | Absorbed \<Rightarrow> Inr cm
      | Escaping \<Rightarrow> Inl (Failure ''cache unavailable''))"


section \<open>The request context and the calls made through it\<close>

text \<open>
  \<^verbatim>\<open>info.context\<close> holds the two collaborators; either may be missing
  (\<^verbatim>\<open>info.context.get(...)\<close> is then \<^verbatim>\<open>None\<close>). The trace records, in order, every call
  made on a collaborator, so that calls can be counted. Logging is not modelled.
\<close>

datatype event =
    GetCustomers int
  | GetProducts int
  | GetInvoices int "string option"
  | CreateCustomerCall row
  | CacheGet string
  | CacheSet string "row list" nat
  | CacheDelete string

record info =
  gomanage_client :: "gomanage option"
  cache_manager :: "cache_store option"
  trace :: "event list"

definition log :: "event \<Rightarrow> info \<Rightarrow> info" where
  "log e i = i\<lparr>trace := trace i @ [e]\<rparr>"

text \<open>\<^verbatim>\<open>cache_manager.get(cache_key) if cache_manager else None\<close>\<close>

definition cache_get :: "info \<Rightarrow> string \<Rightarrow> (exn + row list option) \<times> info" where
  "cache_get i k =
     (case cache_manager i of
        None \<Rightarrow> (Inr None, i)
      | Some cm \<Rightarrow> (cm_get cm k, log (CacheGet k) i))"

text \<open>\<^verbatim>\<open>cache_manager.set(cache_key, rows, ttl=...)\<close>, reached only under \<^verbatim>\<open>if cache_manager\<close>.\<close>

definition cache_set :: "info \<Rightarrow> string \<Rightarrow> row list \<Rightarrow> nat \<Rightarrow> (exn + unit) \<times> info" where
  "cache_set i k v ttl =
     (case cache_manager i of
        None \<Rightarrow> (Inr (), i)
      | Some cm \<Rightarrow>
          (case cm_set cm k v ttl of
             Inl e \<Rightarrow> (Inl e, log (CacheSet k v ttl) i)
           | Inr cm' \<Rightarrow> (Inr (), log (CacheSet k v ttl) (i\<lparr>cache_manager := Some cm'\<rparr>))))"

text \<open>\<^verbatim>\<open>cache_manager.delete(key)\<close>, reached only under \<^verbatim>\<open>if cache_manager\<close>.\<close>

definition cache_delete :: "info \<Rightarrow> string \<Rightarrow> (exn + unit) \<times> info" where
  "cache_delete i k =
     (case cache_manager i of
        None \<Rightarrow> (Inr (), i)
      | Some cm \<Rightarrow>
          (case cm_delete cm k of
             Inl e \<Rightarrow> (Inl e, log (CacheDelete k) i)
           | Inr cm' \<Rightarrow> (Inr (), log (CacheDelete k) (i\<lparr>cache_manager := Some cm'\<rparr>))))"

text \<open>The \<^verbatim>\<open>except Exception: return []\<close> clause that closes each list resolver.\<close>

definition except_empty :: "(exn + row list) \<times> info \<Rightarrow> row list \<times> info" where
  "except_empty r = (case r of (Inl e, i) \<Rightarrow> ([], i) | (Inr rows, i) \<Rightarrow> (rows, i))"

text \<open>A list comprehension \<^verbatim>\<open>[c for c in rows if p(c)]\<close> whose condition may raise.\<close>

fun comprehension :: "(row \<Rightarrow> exn + bool) \<Rightarrow> row list \<Rightarrow> exn + row list" where
  "comprehension p [] = Inr []"
| "comprehension p (c # cs) =
     (case p c of
        Inl e \<Rightarrow> Inl e
      | Inr b \<Rightarrow>
          (case comprehension p cs of
             Inl e \<Rightarrow> Inl e
           | Inr rest \<Rightarrow> Inr (if b then c # rest else rest)))"

text \<open>
  \<^verbatim>\<open>(c.get(k, '') or '').lower()\<close>: a missing or falsy attribute reads as the empty string,
  which is then lowercased; a truthy attribute that is not a string has no \<^verbatim>\<open>lower\<close>
  method.
\<close>

definition lowered_text :: "(string \<Rightarrow> string) \<Rightarrow> row \<Rightarrow> string \<Rightarrow> exn + string" where
  "lowered_text str_lower c k =
     (case c k of
        None \<Rightarrow> Inr (str_lower [])
      | Some v \<Rightarrow>
          if truthy v then
            (case v of
               PStr s \<Rightarrow> Inr (str_lower s)
             | _ \<Rightarrow> Inl (AttributeError ''object has no attribute lower''))
          else Inr (str_lower []))"

text \<open>
  The first argument of a resolver. The GraphQL library calls a resolver with the root value
  of the query in the place of \<^verbatim>\<open>self\<close>; for the schema of line 322 that is \<^verbatim>\<open>None\<close>,
  unless the caller of the schema supplies a root value. A bound call on a \<^verbatim>\<open>Query\<close>
  object passes that object. The list resolvers and \<^verbatim>\<open>mutate\<close> never use \<^verbatim>\<open>self\<close>, so
  their models do not take it; the resolvers by identifier call a method on it.
\<close>

datatype receiver = NoneRoot | QueryObject

text \<open>The \<^verbatim>\<open>except Exception: return None\<close> clause that closes each resolver by identifier.\<close>

definition except_none :: "(exn + row option) \<times> info \<Rightarrow> row option \<times> info" where
  "except_none r = (case r of (Inl e, i) \<Rightarrow> (None, i) | (Inr found, i) \<Rightarrow> (found, i))"

text \<open>The \<^verbatim>\<open>for x in rows: if x.get(key) == wanted: return x\<close> loop, \<^verbatim>\<open>return None\<close> after it.\<close>

fun scan :: "string \<Rightarrow> pyval \<Rightarrow> row list \<Rightarrow> row option" where
  "scan key wanted [] = None"
| "scan key wanted (x # xs) =
     (if py_eq (dict_get x key) wanted then Some x else scan key wanted xs)"


section \<open>Query.resolve_customers and Query.resolve_customer\<close>

text \<open>Line 82: \<^verbatim>\<open>f"customers_{limit}_{search or 'all'}"\<close>\<close>

definition customers_key :: "int \<Rightarrow> string option \<Rightarrow> string" where
  "customers_key limit search = ''customers_'' @ str_int limit @ ''_'' @ or_all search"

text \<open>Lines 89-96: the miss branch.\<close>

definition customers_miss :: "gomanage \<Rightarrow> info \<Rightarrow> int \<Rightarrow> string \<Rightarrow> (exn + row list) \<times> info" where
  "customers_miss client i limit cache_key =
     (let i1 = log (GetCustomers limit) i in
      case get_customers client limit of
        Inl e \<Rightarrow> (Inl e, i1)
      | Inr customers \<Rightarrow>
          if cache_manager i1 \<noteq> None \<and> customers \<noteq> [] then
            (case cache_set i1 cache_key customers 3600 of
               (Inl e, i2) \<Rightarrow> (Inl e, i2)
             | (Inr u, i2) \<Rightarrow> (Inr customers, i2))
          else (Inr customers, i1))"

text \<open>Lines 82-96: the working set, from the cache or from GoManage.\<close>

definition customers_load :: "gomanage \<Rightarrow> info \<Rightarrow> int \<Rightarrow> string option \<Rightarrow> (exn + row list) \<times> info" where
  "customers_load client i limit search =
     (let cache_key = customers_key limit search in
      case cache_get i cache_key of
        (Inl e, i1) \<Rightarrow> (Inl e, i1)
      | (Inr cached_data, i1) \<Rightarrow>
          (case cached_data of
             None \<Rightarrow> customers_miss client i1 limit cache_key
           | Some customers \<Rightarrow>
               if customers \<noteq> [] then (Inr customers, i1)
               else customers_miss client i1 limit cache_key))"

text \<open>Lines 103-105: the condition of the comprehension, with \<^verbatim>\<open>or\<close> short-circuiting.\<close>

definition customer_matches :: "(string \<Rightarrow> string) \<Rightarrow> string \<Rightarrow> row \<Rightarrow> exn + bool" where
  "customer_matches str_lower search_lower c =
     (case lowered_text str_lower c ''business_name'' of
        Inl e \<Rightarrow> Inl e
      | Inr business_name \<Rightarrow>
          if sublist search_lower business_name then Inr True
          else
            (case lowered_text str_lower c ''vat_number'' of
               Inl e \<Rightarrow> Inl e
             | Inr vat_number \<Rightarrow>
                 if sublist search_lower vat_number then Inr True
                 else Inr (sublist search_lower
                             (str_lower (py_str (dict_get_default c ''customer_id'' (PStr [])))))))"

text \<open>Lines 99-106: \<^verbatim>\<open>if search and customers\<close>.\<close>

definition customers_filter ::
  "(string \<Rightarrow> string) \<Rightarrow> string option \<Rightarrow> row list \<Rightarrow> exn + row list" where
  "customers_filter str_lower search customers =
     (case search of
        None \<Rightarrow> Inr customers
      | Some s \<Rightarrow>
          if s \<noteq> [] \<and> customers \<noteq> [] then
            comprehension (customer_matches str_lower (str_lower s)) customers
          else Inr customers)"

text \<open>Lines 72-108: the body of the \<^verbatim>\<open>try\<close>.\<close>

definition resolve_customers_try ::
  "(string \<Rightarrow> string) \<Rightarrow> info \<Rightarrow> int \<Rightarrow> string option \<Rightarrow> (exn + row list) \<times> info" where
  "resolve_customers_try str_lower i limit search =
     (case gomanage_client i of
        None \<Rightarrow> (Inr [], i)
      | Some client \<Rightarrow>
          (case customers_load client i limit search of
             (Inl e, i1) \<Rightarrow> (Inl e, i1)
           | (Inr customers, i1) \<Rightarrow> (customers_filter str_lower search customers, i1)))"

definition resolve_customers ::
  "(string \<Rightarrow> string) \<Rightarrow> info \<Rightarrow> int \<Rightarrow> string option \<Rightarrow> row list \<times> info" where
  "resolve_customers str_lower i limit search =
     except_empty (resolve_customers_try str_lower i limit search)"

text \<open>
  Lines 116-121: the body of the \<^verbatim>\<open>try\<close>. \<^verbatim>\<open>self.resolve_customers\<close> is an attribute
  lookup on the receiver: on \<^verbatim>\<open>None\<close> it raises \<^verbatim>\<open>AttributeError\<close> before anything is
  fetched.
\<close>

definition resolve_customer_try ::
  "(string \<Rightarrow> string) \<Rightarrow> receiver \<Rightarrow> info \<Rightarrow> int \<Rightarrow> (exn + row option) \<times> info" where
  "resolve_customer_try str_lower self i customer_id =
     (case self of
        NoneRoot \<Rightarrow>
          (Inl (AttributeError ''NoneType object has no attribute resolve_customers''), i)
      | QueryObject \<Rightarrow>
          (case resolve_customers str_lower i 1000 None of
             (customers, i1) \<Rightarrow> (Inr (scan ''customer_id'' (PInt customer_id) customers), i1)))"

text \<open>Lines 114-124.\<close>

definition resolve_customer ::
  "(string \<Rightarrow> string) \<Rightarrow> receiver \<Rightarrow> info \<Rightarrow> int \<Rightarrow> row option \<times> info" where
  "resolve_customer str_lower self i customer_id =
     except_none (resolve_customer_try str_lower self i customer_id)"


section \<open>Query.resolve_products and Query.resolve_product\<close>

text \<open>Line 137: \<^verbatim>\<open>f"products_{limit}_{search or 'all'}"\<close>\<close>

definition products_key :: "int \<Rightarrow> string option \<Rightarrow> string" where
  "products_key limit search = ''products_'' @ str_int limit @ ''_'' @ or_all search"

definition products_miss :: "gomanage \<Rightarrow> info \<Rightarrow> int \<Rightarrow> string \<Rightarrow> (exn + row list) \<times> info" where
  "products_miss client i limit cache_key =
     (let i1 = log (GetProducts limit) i in
      case get_products client limit of
        Inl e \<Rightarrow> (Inl e, i1)
      | Inr products \<Rightarrow>
          if cache_manager i1 \<noteq> None \<and> products \<noteq> [] then
            (case cache_set i1 cache_key products 7200 of
               (Inl e, i2) \<Rightarrow> (Inl e, i2)
             | (Inr u, i2) \<Rightarrow> (Inr products, i2))
          else (Inr products, i1))"

definition products_load :: "gomanage \<Rightarrow> info \<Rightarrow> int \<Rightarrow> string option \<Rightarrow> (exn + row list) \<times> info" where
  "products_load client i limit search =
     (let cache_key = products_key limit search in
      case cache_get i cache_key of
        (Inl e, i1) \<Rightarrow> (Inl e, i1)
      | (Inr cached_data, i1) \<Rightarrow>
          (case cached_data of
             None \<Rightarrow> products_miss client i1 limit cache_key
           | Some products \<Rightarrow>
               if products \<noteq> [] then (Inr products, i1)
               else products_miss client i1 limit cache_key))"

text \<open>Lines 158-159.\<close>

definition product_matches :: "(string \<Rightarrow> string) \<Rightarrow> string \<Rightarrow> row \<Rightarrow> exn + bool" where
  "product_matches str_lower search_lower p =
     (case lowered_text str_lower p ''reference'' of
        Inl e \<Rightarrow> Inl e
      | Inr reference \<Rightarrow>
          if sublist search_lower reference then Inr True
          else
            (case lowered_text str_lower p ''description'' of
               Inl e \<Rightarrow> Inl e
             | Inr description \<Rightarrow> Inr (sublist search_lower description)))"

definition products_filter ::
  "(string \<Rightarrow> string) \<Rightarrow> string option \<Rightarrow> row list \<Rightarrow> exn + row list" where
  "products_filter str_lower search products =
     (case search of
        None \<Rightarrow> Inr products
      | Some s \<Rightarrow>
          if s \<noteq> [] \<and> products \<noteq> [] then
            comprehension (product_matches str_lower (str_lower s)) products
          else Inr products)"

definition resolve_products_try ::
  "(string \<Rightarrow> string) \<Rightarrow> info \<Rightarrow> int \<Rightarrow> string option \<Rightarrow> (exn + row list) \<times> info" where
  "resolve_products_try str_lower i limit search =
     (case gomanage_client i of
        None \<Rightarrow> (Inr [], i)
      | Some client \<Rightarrow>
          (case products_load client i limit search of
             (Inl e, i1) \<Rightarrow> (Inl e, i1)
           | (Inr products, i1) \<Rightarrow> (products_filter str_lower search products, i1)))"

definition resolve_products ::
  "(string \<Rightarrow> string) \<Rightarrow> info \<Rightarrow> int \<Rightarrow> string option \<Rightarrow> row list \<times> info" where
  "resolve_products str_lower i limit search =
     except_empty (resolve_products_try str_lower i limit search)"

text \<open>Lines 170-175: the body of the \<^verbatim>\<open>try\<close>.\<close>

definition resolve_product_try ::
  "(string \<Rightarrow> string) \<Rightarrow> receiver \<Rightarrow> info \<Rightarrow> string \<Rightarrow> (exn + row option) \<times> info" where
  "resolve_product_try str_lower self i product_id =
     (case self of
        NoneRoot \<Rightarrow>
          (Inl (AttributeError ''NoneType object has no attribute resolve_products''), i)
      | QueryObject \<Rightarrow>
          (case resolve_products str_lower i 1000 None of
             (products, i1) \<Rightarrow> (Inr (scan ''product_id'' (PStr product_id) products), i1)))"

text \<open>Lines 168-178.\<close>

definition resolve_product ::
  "(string \<Rightarrow> string) \<Rightarrow> receiver \<Rightarrow> info \<Rightarrow> string \<Rightarrow> row option \<times> info" where
  "resolve_product str_lower self i product_id =
     except_none (resolve_product_try str_lower self i product_id)"


section \<open>Query.resolve_invoices and Query.resolve_invoice\<close>

text \<open>Line 191: \<^verbatim>\<open>f"invoices_{limit}_{from_date or 'all'}"\<close>\<close>

definition invoices_key :: "int \<Rightarrow> string option \<Rightarrow> string" where
  "invoices_key limit from_date = ''invoices_'' @ str_int limit @ ''_'' @ or_all from_date"

text \<open>Lines 197-207. The date goes to GoManage; the answer is returned as it is.\<close>

definition invoices_miss ::
  "gomanage \<Rightarrow> info \<Rightarrow> int \<Rightarrow> string option \<Rightarrow> string \<Rightarrow> (exn + row list) \<times> info" where
  "invoices_miss client i limit from_date cache_key =
     (let i1 = log (GetInvoices limit from_date) i in
      case get_invoices client limit from_date of
        Inl e \<Rightarrow> (Inl e, i1)
      | Inr invoices \<Rightarrow>
          if cache_manager i1 \<noteq> None \<and> invoices \<noteq> [] then
            (case cache_set i1 cache_key invoices 1800 of
               (Inl e, i2) \<Rightarrow> (Inl e, i2)
             | (Inr u, i2) \<Rightarrow> (Inr invoices, i2))
          else (Inr invoices, i1))"

definition resolve_invoices_try :: "info \<Rightarrow> int \<Rightarrow> string option \<Rightarrow> (exn + row list) \<times> info" where
  "resolve_invoices_try i limit from_date =
     (case gomanage_client i of
        None \<Rightarrow> (Inr [], i)
      | Some client \<Rightarrow>
          (let cache_key = invoices_key limit from_date in
           case cache_get i cache_key of
             (Inl e, i1) \<Rightarrow> (Inl e, i1)
           | (Inr cached_data, i1) \<Rightarrow>
               (case cached_data of
                  None \<Rightarrow> invoices_miss client i1 limit from_date cache_key
                | Some invoices \<Rightarrow>
                    if invoices \<noteq> [] then (Inr invoices, i1)
                    else invoices_miss client i1 limit from_date cache_key)))"

definition resolve_invoices :: "info \<Rightarrow> int \<Rightarrow> string option \<Rightarrow> row list \<times> info" where
  "resolve_invoices i limit from_date = except_empty (resolve_invoices_try i limit from_date)"

text \<open>Lines 215-220: the body of the \<^verbatim>\<open>try\<close>.\<close>

definition resolve_invoice_try :: "receiver \<Rightarrow> info \<Rightarrow> int \<Rightarrow> (exn + row option) \<times> info" where
  "resolve_invoice_try self i invoice_id =
     (case self of
        NoneRoot \<Rightarrow>
          (Inl (AttributeError ''NoneType object has no attribute resolve_invoices''), i)
      | QueryObject \<Rightarrow>
          (case resolve_invoices i 1000 None of
             (invoices, i1) \<Rightarrow> (Inr (scan ''invoice_id'' (PInt invoice_id) invoices), i1)))"

text \<open>Lines 213-223.\<close>

definition resolve_invoice :: "receiver \<Rightarrow> info \<Rightarrow> int \<Rightarrow> row option \<times> info" where
  "resolve_invoice self i invoice_id = except_none (resolve_invoice_try self i invoice_id)"


section \<open>CreateCustomer.mutate\<close>

text \<open>The object that \<^verbatim>\<open>mutate\<close> returns; an attribute that is not passed stays \<^verbatim>\<open>None\<close>.\<close>

record create_customer_result =
  customer :: "row option"
  success :: bool
  message :: string

text \<open>Lines 277-288.\<close>

definition customer_data_of :: "pyval \<Rightarrow> pyval \<Rightarrow> row \<Rightarrow> row" where
  "customer_data_of business_name vat_number kwargs =
     [''business_name'' \<mapsto> business_name,
      ''vat_number'' \<mapsto> vat_number,
      ''name'' \<mapsto> dict_get_default kwargs ''name'' business_name,
      ''email'' \<mapsto> dict_get_default kwargs ''email'' (PStr []),
      ''street_name'' \<mapsto> dict_get_default kwargs ''street_name'' (PStr []),
      ''postal_code'' \<mapsto> dict_get kwargs ''postal_code'',
      ''city'' \<mapsto> dict_get_default kwargs ''city'' (PStr []),
      ''province_id'' \<mapsto> dict_get kwargs ''province_id'',
      ''country_id'' \<mapsto> dict_get_default kwargs ''country_id'' (PStr ''ES''),
      ''phone'' \<mapsto> dict_get_default kwargs ''phone'' (PStr [])]"

text \<open>Lines 294-297: the two deletions, under \<^verbatim>\<open>if cache_manager\<close>.\<close>

definition clear_customer_cache :: "info \<Rightarrow> (exn + unit) \<times> info" where
  "clear_customer_cache i =
     (if cache_manager i \<noteq> None then
        (case cache_delete i ''customers_100_all'' of
           (Inl e, i1) \<Rightarrow> (Inl e, i1)
         | (Inr u, i1) \<Rightarrow> cache_delete i1 ''customers_1000_all'')
      else (Inr (), i))"

text \<open>Lines 267-308: the body of the \<^verbatim>\<open>try\<close>.\<close>

definition mutate_try ::
  "info \<Rightarrow> pyval \<Rightarrow> pyval \<Rightarrow> row \<Rightarrow> (exn + create_customer_result) \<times> info" where
  "mutate_try i business_name vat_number kwargs =
     (case gomanage_client i of
        None \<Rightarrow>
          (Inr \<lparr>customer = None, success = False, message = ''GoManage client no disponible''\<rparr>, i)
      | Some client \<Rightarrow>
          (let customer_data = customer_data_of business_name vat_number kwargs;
               i1 = log (CreateCustomerCall customer_data) i
           in case create_customer client customer_data of
                Inl e \<Rightarrow> (Inl e, i1)
              | Inr result \<Rightarrow>
                  if truthy result then
                    (case clear_customer_cache i1 of
                       (Inl e, i2) \<Rightarrow> (Inl e, i2)
                     | (Inr u, i2) \<Rightarrow>
                         (Inr \<lparr>customer = Some customer_data, success = True,
                               message = ''Cliente creado exitosamente''\<rparr>, i2))
                  else
                    (Inr \<lparr>customer = None, success = False,
                          message = ''Error creando cliente en GoManage''\<rparr>, i1)))"

text \<open>Lines 265-315, with the \<^verbatim>\<open>except\<close> clause of lines 310-315.\<close>

definition mutate :: "info \<Rightarrow> pyval \<Rightarrow> pyval \<Rightarrow> row \<Rightarrow> create_customer_result \<times> info" where
  "mutate i business_name vat_number kwargs =
     (case mutate_try i business_name vat_number kwargs of
        (Inl e, i1) \<Rightarrow> (\<lparr>customer = None, success = False, message = ''Error: '' @ str_exn e\<rparr>, i1)
      | (Inr r, i1) \<Rightarrow> (r, i1))"

text \<open>
  Line 265: \<^verbatim>\<open>def mutate(self, info, business_name, vat_number, **kwargs)\<close>. The mutation is
  invoked with its arguments as keywords. Python binds the two named parameters before the
  body (and its \<^verbatim>\<open>try\<close>) starts; a call that lacks one of them raises \<^verbatim>\<open>TypeError\<close> at the
  call (its message is abbreviated here). The remaining keywords form \<^verbatim>\<open>kwargs\<close>.
\<close>

definition call_mutate :: "info \<Rightarrow> row \<Rightarrow> exn + create_customer_result \<times> info" where
  "call_mutate i args =
     (case args ''business_name'' of
        None \<Rightarrow> Inl (TypeError ''mutate() missing required argument'')
      | Some business_name \<Rightarrow>
          (case args ''vat_number'' of
             None \<Rightarrow> Inl (TypeError ''mutate() missing required argument'')
           | Some vat_number \<Rightarrow>
               Inr (mutate i business_name vat_number
                      (args(''business_name'' := None, ''vat_number'' := None)))))"


section \<open>The vocabulary of the specification\<close>

text \<open>
  The specification speaks of one operation \<open>fetch(class, params)\<close> over three resource
  classes; the source has one resolver per class. For invoices the term is the
  \<^verbatim>\<open>from_date\<close> argument, and nothing is lowercased.
\<close>

datatype resource_class = Customer | Product | Invoice

fun fetch ::
  "(string \<Rightarrow> string) \<Rightarrow> resource_class \<Rightarrow> info \<Rightarrow> int \<Rightarrow> string option \<Rightarrow> row list \<times> info" where
  "fetch str_lower Customer i limit term = resolve_customers str_lower i limit term"
| "fetch str_lower Product i limit term = resolve_products str_lower i limit term"
| "fetch str_lower Invoice i limit term = resolve_invoices i limit term"

fun cache_key :: "resource_class \<Rightarrow> int \<Rightarrow> string option \<Rightarrow> string" where
  "cache_key Customer limit term = customers_key limit term"
| "cache_key Product limit term = products_key limit term"
| "cache_key Invoice limit term = invoices_key limit term"

text \<open>The answer of GoManage to the list call that \<open>fetch\<close> makes for a class.\<close>

fun backend_list :: "gomanage \<Rightarrow> resource_class \<Rightarrow> int \<Rightarrow> string option \<Rightarrow> exn + row list" where
  "backend_list g Customer limit term = get_customers g limit"
| "backend_list g Product limit term = get_products g limit"
| "backend_list g Invoice limit term = get_invoices g limit term"

text \<open>The TTL tiers as the specification lists them.\<close>

fun ttl_of :: "resource_class \<Rightarrow> nat" where
  "ttl_of Customer = 3600"
| "ttl_of Product = 7200"
| "ttl_of Invoice = 1800"

text \<open>The post-fetch filter stage of a class; the invoice resolver has none.\<close>

fun search_filter ::
  "(string \<Rightarrow> string) \<Rightarrow> resource_class \<Rightarrow> string option \<Rightarrow> row list \<Rightarrow> exn + row list" where
  "search_filter str_lower Customer term rows = customers_filter str_lower term rows"
| "search_filter str_lower Product term rows = products_filter str_lower term rows"
| "search_filter str_lower Invoice term rows = Inr rows"

text \<open>The event that the list call of a class leaves in the trace.\<close>

fun backend_event :: "resource_class \<Rightarrow> int \<Rightarrow> string option \<Rightarrow> event" where
  "backend_event Customer limit term = GetCustomers limit"
| "backend_event Product limit term = GetProducts limit"
| "backend_event Invoice limit term = GetInvoices limit term"

text \<open>The events a call has added to the trace.\<close>

definition events_since :: "info \<Rightarrow> info \<Rightarrow> event list" where
  "events_since i i' = drop (length (trace i)) (trace i')"

fun is_backend_call :: "event \<Rightarrow> bool" where
  "is_backend_call (GetCustomers l) = True"
| "is_backend_call (GetProducts l) = True"
| "is_backend_call (GetInvoices l d) = True"
| "is_backend_call (CreateCustomerCall r) = True"
| "is_backend_call (CacheGet k) = False"
| "is_backend_call (CacheSet k v t) = False"
| "is_backend_call (CacheDelete k) = False"

fun is_cache_write :: "event \<Rightarrow> bool" where
  "is_cache_write (CacheSet k v t) = True"
| "is_cache_write (CacheDelete k) = True"
| "is_cache_write (GetCustomers l) = False"
| "is_cache_write (GetProducts l) = False"
| "is_cache_write (GetInvoices l d) = False"
| "is_cache_write (CreateCustomerCall r) = False"
| "is_cache_write (CacheGet k) = False"

definition backend_calls :: "event list \<Rightarrow> event list" where
  "backend_calls es = filter is_backend_call es"

definition cache_writes :: "event list \<Rightarrow> event list" where
  "cache_writes es = filter is_cache_write es"

text \<open>Time passing between two requests: the clock of the cache store advances.\<close>

definition elapse :: "nat \<Rightarrow> info \<Rightarrow> info" where
  "elapse d i =
     (case cache_manager i of
        None \<Rightarrow> i
      | Some cm \<Rightarrow> i\<lparr>cache_manager := Some (cm\<lparr>now := now cm + d\<rparr>)\<rparr>)"








text \<open>A sequence of requests, with time passing and the remote data changing in between.\<close>

datatype request =
    Fetch resource_class int "string option"
  | Elapse nat
  | Rebind "gomanage option"

fun perform :: "(string \<Rightarrow> string) \<Rightarrow> request \<Rightarrow> info \<Rightarrow> info" where
  "perform str_lower (Fetch cls limit term) i = snd (fetch str_lower cls i limit term)"
| "perform str_lower (Elapse d) i = elapse d i"
| "perform str_lower (Rebind g) i = i\<lparr>gomanage_client := g\<rparr>"

fun run :: "(string \<Rightarrow> string) \<Rightarrow> request list \<Rightarrow> info \<Rightarrow> info" where
  "run str_lower [] i = i"
| "run str_lower (r # rs) i = run str_lower rs (perform str_lower r i)"

text \<open>
  What the resolver of a class returns for a working set: the filter stage, under the
  \<^verbatim>\<open>except\<close> clause.
\<close>

definition filtered ::
  "(string \<Rightarrow> string) \<Rightarrow> resource_class \<Rightarrow> string option \<Rightarrow> row list \<Rightarrow> row list" where
  "filtered str_lower cls term rows =
     (case search_filter str_lower cls term rows of Inl e \<Rightarrow> [] | Inr r \<Rightarrow> r)"

text \<open>
  The lookup of a key misses: \<^verbatim>\<open>get\<close> returns without raising and \<^verbatim>\<open>if cached_data\<close> fails
  (nothing visible, or an empty list).
\<close>

definition misses :: "cache_store \<Rightarrow> string \<Rightarrow> bool" where
  "misses cm k = (cm_get cm k = Inr None \<or> cm_get cm k = Inr (Some []))"


text \<open>The body of the \<^verbatim>\<open>try\<close> of the resolver of a class.\<close>

fun fetch_try ::
  "(string \<Rightarrow> string) \<Rightarrow> resource_class \<Rightarrow> info \<Rightarrow> int \<Rightarrow> string option
     \<Rightarrow> (exn + row list) \<times> info" where
  "fetch_try str_lower Customer i limit term = resolve_customers_try str_lower i limit term"
| "fetch_try str_lower Product i limit term = resolve_products_try str_lower i limit term"
| "fetch_try str_lower Invoice i limit term = resolve_invoices_try i limit term"

text \<open>The key a cache event is about.\<close>

fun cache_event_key :: "event \<Rightarrow> string option" where
  "cache_event_key (CacheGet k) = Some k"
| "cache_event_key (CacheSet k v t) = Some k"
| "cache_event_key (CacheDelete k) = Some k"
| "cache_event_key (GetCustomers l) = None"
| "cache_event_key (GetProducts l) = None"
| "cache_event_key (GetInvoices l d) = None"
| "cache_event_key (CreateCustomerCall r) = None"

text \<open>
  A sample lowercasing function. It folds the ASCII capitals and, in UTF-8, the accented
  capitals of Spanish (the two bytes \<open>0xC3 0x91\<close> of the capital letter N with tilde become
  \<open>0xC3 0xB1\<close>, and so on); on such text it agrees with \<^verbatim>\<open>str.lower\<close>.
\<close>

definition lower_ascii :: "char \<Rightarrow> char" where
  "lower_ascii c =
     (case map_of (zip ''ABCDEFGHIJKLMNOPQRSTUVWXYZ'' ''abcdefghijklmnopqrstuvwxyz'') c of
        None \<Rightarrow> c
      | Some l \<Rightarrow> l)"

definition lower_accented :: "char \<Rightarrow> char" where
  "lower_accented c =
     (case map_of
         (zip [CHR 0x81, CHR 0x89, CHR 0x8D, CHR 0x91, CHR 0x93, CHR 0x9A, CHR 0x9C]
              [CHR 0xA1, CHR 0xA9, CHR 0xAD, CHR 0xB1, CHR 0xB3, CHR 0xBA, CHR 0xBC]) c of
        None \<Rightarrow> c
      | Some l \<Rightarrow> l)"

fun sample_lower :: "string \<Rightarrow> string" where
  "sample_lower [] = []"
| "sample_lower [c] = [lower_ascii c]"
| "sample_lower (c # d # cs) =
     (if c = CHR 0xC3 then c # lower_accented d # sample_lower cs
      else lower_ascii c # sample_lower (d # cs))"



definition acme :: row where
  "acme = [''customer_id'' \<mapsto> PInt 7, ''business_name'' \<mapsto> PStr ''Acme Corp'',
           ''vat_number'' \<mapsto> PStr ''B123'']"

definition bolt :: row where
  "bolt = [''product_id'' \<mapsto> PStr ''P1'', ''reference'' \<mapsto> PStr ''ABC-1'',
           ''description'' \<mapsto> PStr ''steel bolt'']"

definition nut :: row where
  "nut = [''product_id'' \<mapsto> PStr ''P2'', ''reference'' \<mapsto> PStr ''XYZ-2'',
          ''description'' \<mapsto> PNone]"

definition bill :: row where
  "bill = [''invoice_id'' \<mapsto> PInt 3, ''reference'' \<mapsto> PStr ''F-3'']"

definition sample_client :: gomanage where
  "sample_client =
     \<lparr>get_customers = (\<lambda>limit. Inr [acme]),
      get_products = (\<lambda>limit. Inr [bolt, nut]),
      get_invoices = (\<lambda>limit from_date. Inr [bill]),
      create_customer = (\<lambda>data. Inr (PBool True))\<rparr>"

definition empty_store :: cache_store where
  "empty_store = \<lparr>entries = Map.empty, now = 0, health = Up\<rparr>"

definition sample_info :: info where
  "sample_info =
     \<lparr>gomanage_client = Some sample_client, cache_manager = Some empty_store, trace = []\<rparr>"


section \<open>Facts about strings and keys\<close>

lemma digits_small: "n < 10 \<Longrightarrow> digits n = [digit_char n]"
  by (subst digits.simps) simp

lemma digits_large: "\<not> n < 10 \<Longrightarrow> digits n = digits (n div 10) @ [digit_char (n mod 10)]"
  by (subst digits.simps) simp

lemma digit_char_inj: "a < 10 \<Longrightarrow> b < 10 \<Longrightarrow> digit_char a = digit_char b \<Longrightarrow> a = b"
  unfolding digit_char_def
  by (auto simp: less_Suc_eq numeral_nat nth_Cons')

lemma digit_char_set: "d < 10 \<Longrightarrow> digit_char d \<in> set ''0123456789''"
  unfolding digit_char_def
  by (auto simp: less_Suc_eq numeral_nat nth_Cons')

lemma digits_ne: "digits n \<noteq> []"
  by (cases "n < 10") (simp_all add: digits_small digits_large)

lemma digits_set: "set (digits n) \<subseteq> set ''0123456789''"
proof (induction n rule: digits.induct)
  case (1 n)
  show ?case
  proof (cases "n < 10")
    case True
    then show ?thesis
      using digit_char_set[of n] by (simp add: digits_small)
  next
    case False
    then show ?thesis
      using 1[OF False] digit_char_set[of "n mod 10"] by (simp add: digits_large)
  qed
qed

lemma digits_inj: "digits a = digits b \<Longrightarrow> a = b"
proof (induction a arbitrary: b rule: digits.induct)
  case (1 n)
  note eq = \<open>digits n = digits b\<close>
  show ?case
  proof (cases "n < 10")
    case small_n: True
    show ?thesis
    proof (cases "b < 10")
      case True
      with small_n eq show ?thesis
        by (auto simp: digits_small intro: digit_char_inj)
    next
      case False
      with small_n eq have "digits (b div 10) = []"
        by (simp add: digits_small digits_large)
      then show ?thesis by (simp add: digits_ne)
    qed
  next
    case large_n: False
    show ?thesis
    proof (cases "b < 10")
      case True
      with large_n eq have "digits (n div 10) = []"
        by (simp add: digits_small digits_large)
      then show ?thesis by (simp add: digits_ne)
    next
      case False
      with large_n eq have front: "digits (n div 10) = digits (b div 10)"
        and last_digit: "digit_char (n mod 10) = digit_char (b mod 10)"
        by (simp_all add: digits_large)
      from 1(1)[OF large_n front] have "n div 10 = b div 10" .
      moreover from last_digit have "n mod 10 = b mod 10"
        by (intro digit_char_inj) simp_all
      ultimately show ?thesis by (metis div_mult_mod_eq)
    qed
  qed
qed

lemma minus_not_digit: "CHR ''-'' # digits n \<noteq> digits m"
proof
  assume "CHR ''-'' # digits n = digits m"
  then have "CHR ''-'' \<in> set (digits m)" by (metis list.set_intros(1))
  with digits_set[of m] show False by auto
qed

lemma str_int_inj: "str_int a = str_int b \<Longrightarrow> a = b"
proof -
  assume eq: "str_int a = str_int b"
  consider "a < 0" "b < 0" | "a < 0" "\<not> b < 0" | "\<not> a < 0" "b < 0" | "\<not> a < 0" "\<not> b < 0"
    by blast
  then show ?thesis
  proof cases
    case 1
    with eq have "nat (- a) = nat (- b)"
      by (auto simp: str_int_def dest: digits_inj)
    with 1 show ?thesis by simp
  next
    case 2
    with eq minus_not_digit show ?thesis by (simp add: str_int_def)
  next
    case 3
    with eq minus_not_digit[of "nat (- b)" "nat a"] show ?thesis by (simp add: str_int_def)
  next
    case 4
    with eq have "nat a = nat b"
      by (auto simp: str_int_def dest: digits_inj)
    with 4 show ?thesis by simp
  qed
qed

lemma str_int_no_underscore: "CHR ''_'' \<notin> set (str_int n)"
  using digits_set[of "nat n"] digits_set[of "nat (- n)"] by (auto simp: str_int_def)

lemma split_at_first:
  "x \<notin> set xs \<Longrightarrow> x \<notin> set xs' \<Longrightarrow> xs @ x # ys = xs' @ x # ys' \<Longrightarrow> xs = xs' \<and> ys = ys'"
proof (induction xs arbitrary: xs')
  case Nil
  then show ?case by (cases xs') auto
next
  case (Cons a xs)
  then show ?case by (cases xs') auto
qed

lemma limit_term_inj:
  "str_int l @ CHR ''_'' # t = str_int l' @ CHR ''_'' # t' \<longleftrightarrow> l = l' \<and> t = t'"
  using split_at_first[OF str_int_no_underscore str_int_no_underscore, of l t l' t']
  by (auto dest: str_int_inj)

lemma cache_key_inj:
  "cache_key cls l t = cache_key cls' l' t' \<longleftrightarrow> cls = cls' \<and> l = l' \<and> or_all t = or_all t'"
  by (cases cls; cases cls')
     (simp_all add: customers_key_def products_key_def invoices_key_def limit_term_inj)


section \<open>Facts about the resolvers\<close>

lemmas resolver_defs =
  resolve_customers_def resolve_customers_try_def customers_load_def customers_miss_def
  resolve_products_def resolve_products_try_def products_load_def products_miss_def
  resolve_invoices_def resolve_invoices_try_def invoices_miss_def
  cache_get_def cache_set_def cm_get_def cm_set_def visible_def log_def except_empty_def
  Let_def

lemmas filter_defs = customers_filter_def customer_matches_def products_filter_def
  product_matches_def lowered_text_def lower_ascii_def lower_accented_def sublist_code
  dict_get_default_def dict_get_def

lemmas trace_defs = events_since_def backend_calls_def cache_writes_def

lemmas sample_defs = sample_info_def sample_client_def empty_store_def
  customers_key_def products_key_def invoices_key_def or_all_def
  str_int_def digits.simps digit_char_def

lemmas fetch_defs = resolver_defs filtered_def customers_filter_def products_filter_def

lemma fetch_no_client:
  "gomanage_client i = None \<Longrightarrow> fetch low cls i limit term = ([], i)"
  by (cases cls) (simp_all add: fetch_defs)

lemma fetch_escaping:
  "gomanage_client i = Some g \<Longrightarrow> cache_manager i = Some cm \<Longrightarrow> health cm = Escaping \<Longrightarrow>
   fetch low cls i limit term = ([], log (CacheGet (cache_key cls limit term)) i)"
  by (cases cls) (simp_all add: fetch_defs)

lemma fetch_hit:
  "gomanage_client i = Some g \<Longrightarrow> cache_manager i = Some cm \<Longrightarrow>
   cm_get cm (cache_key cls limit term) = Inr (Some rows) \<Longrightarrow> rows \<noteq> [] \<Longrightarrow>
   fetch low cls i limit term = (filtered low cls term rows, log (CacheGet (cache_key cls limit term)) i)"
  by (cases cls) (simp_all add: fetch_defs split: sum.splits option.splits)

lemma fetch_no_cache_fail:
  "gomanage_client i = Some g \<Longrightarrow> cache_manager i = None \<Longrightarrow>
   backend_list g cls limit term = Inl e \<Longrightarrow>
   fetch low cls i limit term = ([], log (backend_event cls limit term) i)"
  by (cases cls) (simp_all add: fetch_defs)

lemma fetch_no_cache:
  "gomanage_client i = Some g \<Longrightarrow> cache_manager i = None \<Longrightarrow>
   backend_list g cls limit term = Inr rows \<Longrightarrow>
   fetch low cls i limit term = (filtered low cls term rows, log (backend_event cls limit term) i)"
  by (cases cls) (simp_all add: fetch_defs split: sum.splits option.splits)

lemma fetch_miss_fail:
  "gomanage_client i = Some g \<Longrightarrow> cache_manager i = Some cm \<Longrightarrow>
   misses cm (cache_key cls limit term) \<Longrightarrow>
   backend_list g cls limit term = Inl e \<Longrightarrow>
   fetch low cls i limit term =
     ([], log (backend_event cls limit term) (log (CacheGet (cache_key cls limit term)) i))"
  by (cases cls) (auto simp add: fetch_defs misses_def)

lemma fetch_miss_empty:
  "gomanage_client i = Some g \<Longrightarrow> cache_manager i = Some cm \<Longrightarrow>
   misses cm (cache_key cls limit term) \<Longrightarrow>
   backend_list g cls limit term = Inr [] \<Longrightarrow>
   fetch low cls i limit term =
     ([], log (backend_event cls limit term) (log (CacheGet (cache_key cls limit term)) i))"
  by (cases cls) (auto simp add: fetch_defs misses_def split: option.splits)

lemma fetch_miss_store:
  "gomanage_client i = Some g \<Longrightarrow> cache_manager i = Some cm \<Longrightarrow>
   misses cm (cache_key cls limit term) \<Longrightarrow>
   backend_list g cls limit term = Inr rows \<Longrightarrow> rows \<noteq> [] \<Longrightarrow>
   cm_set cm (cache_key cls limit term) rows (ttl_of cls) = Inr cm' \<Longrightarrow>
   fetch low cls i limit term =
     (filtered low cls term rows,
      i\<lparr>cache_manager := Some cm',
        trace := trace i @ [CacheGet (cache_key cls limit term), backend_event cls limit term,
                            CacheSet (cache_key cls limit term) rows (ttl_of cls)]\<rparr>)"
  by (cases cls)
     (auto simp add: resolver_defs filtered_def misses_def split: sum.splits option.splits)

lemma lookup_cases:
  obtains (Raises) "health cm = Escaping"
  | (Found) rows where "cm_get cm k = Inr (Some rows)" "rows \<noteq> []"
  | (NotFound) "misses cm k"
  by (cases "health cm"; cases "visible cm k") (auto simp: cm_get_def misses_def)

lemma misses_set:
  assumes "misses cm k"
  obtains (Up) "health cm = Up"
      "cm_set cm k' v t = Inr (cm\<lparr>entries := (entries cm)(k' \<mapsto> \<lparr>entry_value = v, expires_at = now cm + t\<rparr>)\<rparr>)"
  | (Absorbed) "health cm = Absorbed" "cm_set cm k' v t = Inr cm"
  using assms by (cases "health cm") (auto simp: cm_get_def cm_set_def misses_def)

lemma filtered_Nil: "filtered low cls term [] = []"
  by (cases cls) (simp_all add: filtered_def customers_filter_def products_filter_def split: option.splits)

text \<open>Every run of a resolver is one of six outcomes.\<close>

lemma fetch_outcome:
  obtains
    (NoClient) "gomanage_client i = None" "fetch low cls i limit term = ([], i)"
  | (Escaping) g cm where "gomanage_client i = Some g" "cache_manager i = Some cm"
      "health cm = Escaping"
      "fetch low cls i limit term = ([], log (CacheGet (cache_key cls limit term)) i)"
  | (Hit) g cm rows where "gomanage_client i = Some g" "cache_manager i = Some cm"
      "cm_get cm (cache_key cls limit term) = Inr (Some rows)" "rows \<noteq> []"
      "fetch low cls i limit term =
         (filtered low cls term rows, log (CacheGet (cache_key cls limit term)) i)"
  | (Fail) g e where "gomanage_client i = Some g"
      "cache_manager i = None \<or> (\<exists>cm. cache_manager i = Some cm \<and> misses cm (cache_key cls limit term))"
      "backend_list g cls limit term = Inl e"
      "fetch low cls i limit term =
         ([], log (backend_event cls limit term) (snd (cache_get i (cache_key cls limit term))))"
  | (Unstored) g rows where "gomanage_client i = Some g"
      "cache_manager i = None \<or>
       (\<exists>cm. cache_manager i = Some cm \<and> misses cm (cache_key cls limit term) \<and> rows = [])"
      "backend_list g cls limit term = Inr rows"
      "fetch low cls i limit term =
         (filtered low cls term rows,
          log (backend_event cls limit term) (snd (cache_get i (cache_key cls limit term))))"
  | (Stored) g cm rows cm' where "gomanage_client i = Some g" "cache_manager i = Some cm"
      "misses cm (cache_key cls limit term)"
      "backend_list g cls limit term = Inr rows" "rows \<noteq> []"
      "cm_set cm (cache_key cls limit term) rows (ttl_of cls) = Inr cm'"
      "fetch low cls i limit term =
         (filtered low cls term rows,
          i\<lparr>cache_manager := Some cm',
            trace := trace i @ [CacheGet (cache_key cls limit term), backend_event cls limit term,
                                CacheSet (cache_key cls limit term) rows (ttl_of cls)]\<rparr>)"
proof (cases "gomanage_client i")
  case None
  then show ?thesis using NoClient fetch_no_client by blast
next
  case client: (Some g)
  show ?thesis
  proof (cases "cache_manager i")
    case None
    show ?thesis
    proof (cases "backend_list g cls limit term")
      case (Inl e)
      with client None show ?thesis
        using Fail[of g e] fetch_no_cache_fail[of i g cls limit "term" e]
        by (simp add: cache_get_def)
    next
      case (Inr rows)
      with client None show ?thesis
        using Unstored[of g rows] fetch_no_cache[of i g cls limit "term" rows]
        by (simp add: cache_get_def)
    qed
  next
    case cache: (Some cm)
    show ?thesis
    proof (cases rule: lookup_cases[where cm = cm and k = "cache_key cls limit term"])
      case Raises
      with client cache show ?thesis
        using Escaping fetch_escaping by blast
    next
      case (Found rows)
      with client cache show ?thesis
        using Hit fetch_hit by blast
    next
      case Miss: NotFound
      show ?thesis
      proof (cases "backend_list g cls limit term")
        case (Inl e)
        with client cache Miss show ?thesis
          using Fail[of g e] fetch_miss_fail[of i g cm cls limit "term" e]
          by (simp add: cache_get_def)
      next
        case (Inr rows)
        show ?thesis
        proof (cases "rows = []")
          case True
          with client cache Miss Inr show ?thesis
            using Unstored[of g rows] fetch_miss_empty[of i g cm cls limit "term"]
            by (simp add: cache_get_def filtered_Nil)
        next
          case False
          from Miss obtain cm' where
            "cm_set cm (cache_key cls limit term) rows (ttl_of cls) = Inr cm'"
            by (rule misses_set) blast+
          with client cache Miss Inr False show ?thesis
            using Stored fetch_miss_store by blast
        qed
      qed
    qed
  qed
qed

lemma events_since_self [simp]: "events_since i i = []"
  by (simp add: events_since_def)

lemma events_since_log [simp]: "events_since i (log e i) = [e]"
  by (simp add: events_since_def log_def)

lemma events_since_log2 [simp]: "events_since i (log e2 (log e1 i)) = [e1, e2]"
  by (simp add: events_since_def log_def)

lemma events_since_append [simp]:
  "events_since i (i\<lparr>cache_manager := c, trace := trace i @ es\<rparr>) = es"
  by (simp add: events_since_def)

lemma events_after_get:
  "events_since i (log e (snd (cache_get i k))) =
     (if cache_manager i = None then [e] else [CacheGet k, e])"
  by (simp add: cache_get_def split: option.splits)

lemma fetch_cache_keys:
  "e \<in> set (events_since i (snd (fetch low cls i limit term))) \<Longrightarrow>
   cache_event_key e = None \<or> cache_event_key e = Some (cache_key cls limit term)"
  by (cases rule: fetch_outcome[of i low cls limit "term"])
     (cases cls; auto simp: events_after_get split: if_splits)+


section \<open>Cache keys\<close>

text \<open>
  Claim C7. The cache key is a function of the class, the limit and the term (or date) and of
  nothing else: whatever the context, every cache call a resolver makes is on the key derived
  from these three; two derivations agree exactly when the class and the limit agree and the
  terms agree after \<^verbatim>\<open>or 'all'\<close>; in particular the same term at two different limits
  gives two different keys.
\<close>

theorem C7_key_derivation:
  "(\<forall>e \<in> set (events_since i (snd (fetch low cls i limit term))).
      cache_event_key e = None \<or> cache_event_key e = Some (cache_key cls limit term))
   \<and> (cache_key cls limit term = cache_key cls' limit' term'
        \<longleftrightarrow> cls = cls' \<and> limit = limit' \<and> or_all term = or_all term')
   \<and> (limit \<noteq> limit' \<longrightarrow> cache_key cls limit term \<noteq> cache_key cls limit' term)"
  using fetch_cache_keys[of _ i low cls limit "term"] cache_key_inj by blast

theorem C7_key_derivation_witness:
  "events_since sample_info (snd (fetch sample_lower Customer sample_info 100 (Some ''foo'')))
     = [CacheGet ''customers_100_foo'', GetCustomers 100, CacheSet ''customers_100_foo'' [acme] 3600]
   \<and> cache_key Customer 100 (Some ''foo'') = ''customers_100_foo''
   \<and> (100::int) \<noteq> 200
   \<and> cache_key Customer 100 (Some ''foo'') \<noteq> cache_key Customer 200 (Some ''foo'')"
proof -
  have ne: "(100::int) \<noteq> 200" by simp
  have ev: "events_since sample_info (snd (fetch sample_lower Customer sample_info 100 (Some ''foo'')))
     = [CacheGet ''customers_100_foo'', GetCustomers 100, CacheSet ''customers_100_foo'' [acme] 3600]"
    by (simp add: resolver_defs trace_defs sample_defs filter_defs acme_def)
  have k: "cache_key Customer 100 (Some ''foo'') = ''customers_100_foo''"
    by (simp add: sample_defs)
  from C7_key_derivation[of sample_info sample_lower Customer 100 "Some ''foo''" Customer 200 "Some ''foo''"] ne
  have "cache_key Customer 100 (Some ''foo'') \<noteq> cache_key Customer 200 (Some ''foo'')"
    by blast
  with ne ev k show ?thesis by blast
qed


section \<open>Read-through\<close>

lemma empty_store_misses: "entries cm = Map.empty \<Longrightarrow> health cm = Up \<Longrightarrow> misses cm k"
  by (simp add: misses_def cm_get_def visible_def)

lemma backend_calls_simps [simp]:
  "backend_calls [] = []"
  "backend_calls (CacheGet k # es) = backend_calls es"
  "backend_calls (CacheSet k v t # es) = backend_calls es"
  "backend_calls (CacheDelete k # es) = backend_calls es"
  "backend_calls (backend_event cls limit term # es) = backend_event cls limit term # backend_calls es"
  by (cases cls; simp add: backend_calls_def)+

lemma cache_writes_simps [simp]:
  "cache_writes [] = []"
  "cache_writes (CacheGet k # es) = cache_writes es"
  "cache_writes (CacheSet k v t # es) = CacheSet k v t # cache_writes es"
  "cache_writes (CacheDelete k # es) = CacheDelete k # cache_writes es"
  "cache_writes (backend_event cls limit term # es) = cache_writes es"
  by (cases cls; simp add: cache_writes_def)+

lemma first_fetch_on_empty_store:
  assumes "gomanage_client i = Some g" "cache_manager i = Some cm"
    and "entries cm = Map.empty" "health cm = Up"
  shows "fetch low cls i limit term =
    (case backend_list g cls limit term of
       Inl e \<Rightarrow> ([], i\<lparr>trace := trace i @ [CacheGet (cache_key cls limit term), backend_event cls limit term]\<rparr>)
     | Inr rows \<Rightarrow>
         if rows = [] then
           ([], i\<lparr>trace := trace i @ [CacheGet (cache_key cls limit term), backend_event cls limit term]\<rparr>)
         else
           (filtered low cls term rows,
            i\<lparr>cache_manager := Some (cm\<lparr>entries :=
                  [cache_key cls limit term \<mapsto> \<lparr>entry_value = rows, expires_at = now cm + ttl_of cls\<rparr>]\<rparr>),
              trace := trace i @ [CacheGet (cache_key cls limit term), backend_event cls limit term,
                                  CacheSet (cache_key cls limit term) rows (ttl_of cls)]\<rparr>))"
proof -
  have miss: "misses cm (cache_key cls limit term)"
    using assms by (simp add: empty_store_misses)
  show ?thesis
  proof (cases "backend_list g cls limit term")
    case (Inl e)
    then show ?thesis
      using fetch_miss_fail[OF assms(1,2) miss Inl] by (simp add: log_def)
  next
    case (Inr rows)
    show ?thesis
    proof (cases "rows = []")
      case True
      with Inr show ?thesis
        using fetch_miss_empty[OF assms(1,2) miss] by (simp add: log_def)
    next
      case False
      have "cm_set cm (cache_key cls limit term) rows (ttl_of cls) =
        Inr (cm\<lparr>entries := [cache_key cls limit term \<mapsto>
                \<lparr>entry_value = rows, expires_at = now cm + ttl_of cls\<rparr>]\<rparr>)"
        using assms by (simp add: cm_set_def)
      from fetch_miss_store[OF assms(1,2) miss Inr False this] Inr False
      show ?thesis by simp
    qed
  qed
qed

text \<open>
  Claim C1. For every resource class, a fetch on an empty (and reachable) cache store makes
  exactly one backend call; it makes exactly one cache write when the backend returns a
  non-empty list, namely a \<^verbatim>\<open>set\<close> of that list under the derived key with the TTL of the
  class (3600, 7200, 1800 seconds), and none otherwise. After such a populating fetch, a
  second fetch with the same class, limit and term, made before the TTL has elapsed, makes
  no backend call and returns the same list of records, whatever the backend would now
  answer.
\<close>

theorem C1_read_through:
  assumes "gomanage_client i = Some g" and "cache_manager i = Some cm"
    and "entries cm = Map.empty" and "health cm = Up"
  shows "backend_calls (events_since i (snd (fetch low cls i limit term)))
           = [backend_event cls limit term]
       \<and> cache_writes (events_since i (snd (fetch low cls i limit term)))
           = (case backend_list g cls limit term of
                Inl e \<Rightarrow> []
              | Inr rows \<Rightarrow>
                  if rows = [] then []
                  else [CacheSet (cache_key cls limit term) rows (ttl_of cls)])
       \<and> (\<forall>rows. backend_list g cls limit term = Inr rows \<and> rows \<noteq> [] \<and> d < ttl_of cls \<longrightarrow>
            backend_calls
              (events_since (run low [Fetch cls limit term, Rebind (Some g'), Elapse d] i)
                 (snd (fetch low cls (run low [Fetch cls limit term, Rebind (Some g'), Elapse d] i) limit term)))
              = []
          \<and> fst (fetch low cls (run low [Fetch cls limit term, Rebind (Some g'), Elapse d] i) limit term)
              = fst (fetch low cls i limit term))"
proof (intro conjI allI impI)
  note first = first_fetch_on_empty_store[OF assms, of low cls limit "term"]
  show "backend_calls (events_since i (snd (fetch low cls i limit term))) = [backend_event cls limit term]"
    by (simp add: first events_since_def split: sum.splits)
  show "cache_writes (events_since i (snd (fetch low cls i limit term)))
           = (case backend_list g cls limit term of
                Inl e \<Rightarrow> []
              | Inr rows \<Rightarrow>
                  if rows = [] then []
                  else [CacheSet (cache_key cls limit term) rows (ttl_of cls)])"
    by (simp add: first events_since_def split: sum.splits)
  fix rows
  assume populated: "backend_list g cls limit term = Inr rows \<and> rows \<noteq> [] \<and> d < ttl_of cls"
  let ?k = "cache_key cls limit term"
  let ?cm' = "cm\<lparr>entries := [?k \<mapsto> \<lparr>entry_value = rows, expires_at = now cm + ttl_of cls\<rparr>],
                  now := now cm + d\<rparr>"
  let ?i2 = "run low [Fetch cls limit term, Rebind (Some g'), Elapse d] i"
  have i2: "gomanage_client ?i2 = Some g'" "cache_manager ?i2 = Some ?cm'"
    using populated by (simp_all add: first elapse_def)
  have "cm_get ?cm' ?k = Inr (Some rows)"
    using populated assms by (simp add: cm_get_def visible_def)
  from fetch_hit[OF i2 this] populated
  have second: "fetch low cls ?i2 limit term = (filtered low cls term rows, log (CacheGet ?k) ?i2)"
    by simp
  show "backend_calls (events_since ?i2 (snd (fetch low cls ?i2 limit term))) = []"
    unfolding second by simp
  show "fst (fetch low cls ?i2 limit term) = fst (fetch low cls i limit term)"
    unfolding second using populated by (simp add: first)
qed

theorem C1_read_through_witness:
  "gomanage_client sample_info = Some sample_client
   \<and> cache_manager sample_info = Some empty_store
   \<and> entries empty_store = Map.empty \<and> health empty_store = Up
   \<and> backend_list sample_client Customer 10 None = Inr [acme] \<and> [acme] \<noteq> [] \<and> (5::nat) < ttl_of Customer
   \<and> backend_calls (events_since sample_info (snd (fetch sample_lower Customer sample_info 10 None)))
       = [GetCustomers 10]
   \<and> cache_writes (events_since sample_info (snd (fetch sample_lower Customer sample_info 10 None)))
       = [CacheSet ''customers_10_all'' [acme] 3600]
   \<and> backend_calls
        (events_since (run sample_lower [Fetch Customer 10 None, Rebind (Some sample_client), Elapse 5] sample_info)
           (snd (fetch sample_lower Customer
                  (run sample_lower [Fetch Customer 10 None, Rebind (Some sample_client), Elapse 5] sample_info)
                  10 None))) = []
   \<and> fst (fetch sample_lower Customer
            (run sample_lower [Fetch Customer 10 None, Rebind (Some sample_client), Elapse 5] sample_info) 10 None)
       = [acme]"
proof -
  have h: "gomanage_client sample_info = Some sample_client"
     "cache_manager sample_info = Some empty_store"
     "entries empty_store = Map.empty" "health empty_store = Up"
    by (simp_all add: sample_info_def empty_store_def)
  have b: "backend_list sample_client Customer 10 None = Inr [acme]" "(5::nat) < ttl_of Customer"
    by (simp_all add: sample_client_def)
  have k: "cache_key Customer 10 None = ''customers_10_all''"
    by (simp add: sample_defs)
  have r: "fst (fetch sample_lower Customer sample_info 10 None) = [acme]"
    by (simp add: first_fetch_on_empty_store[OF h] sample_client_def filtered_def
        customers_filter_def)
  from C1_read_through[OF h, of sample_lower Customer 10 None 5 sample_client] b k r h
  show ?thesis by simp
qed


section \<open>Misses, failures and the hit path\<close>

lemma misses_later: "misses cm k \<Longrightarrow> misses (cm\<lparr>now := now cm + d\<rparr>) k"
  by (cases "health cm")
     (auto simp: misses_def cm_get_def visible_def split: option.splits if_splits)

lemma misses_not_escaping: "misses cm k \<Longrightarrow> health cm \<noteq> Escaping"
  by (auto simp: misses_def cm_get_def)

lemma miss_backend_calls:
  assumes "gomanage_client i = Some g"
    and "cache_manager i = None \<or> (\<exists>cm. cache_manager i = Some cm \<and> misses cm (cache_key cls limit term))"
  shows "backend_calls (events_since i (snd (fetch low cls i limit term))) = [backend_event cls limit term]"
proof (cases rule: fetch_outcome[of i low cls limit "term"])
  case NoClient
  with assms show ?thesis by simp
next
  case (Escaping g cm)
  with assms show ?thesis by (auto dest: misses_not_escaping)
next
  case (Hit g cm rows)
  with assms show ?thesis by (auto simp: misses_def)
next
  case (Fail g e)
  then show ?thesis by (simp add: events_after_get)
next
  case (Unstored g rows)
  then show ?thesis by (simp add: events_after_get)
next
  case (Stored g cm rows cm')
  then show ?thesis by simp
qed

text \<open>
  Claim C5. For every resource class: when a fetch reaches the backend and the backend
  returns an empty list, the fetch writes nothing to the cache (no \<^verbatim>\<open>set\<close>, the store is
  as before), and the next fetch with the same class, limit and term, whenever it comes,
  calls the backend again.
\<close>

theorem C5_no_negative_caching:
  assumes "gomanage_client i = Some g"
    and "backend_list g cls limit term = Inr []"
    and "backend_event cls limit term \<in> set (events_since i (snd (fetch low cls i limit term)))"
  shows "fst (fetch low cls i limit term) = []
       \<and> cache_manager (snd (fetch low cls i limit term)) = cache_manager i
       \<and> cache_writes (events_since i (snd (fetch low cls i limit term))) = []
       \<and> backend_calls
            (events_since (run low [Fetch cls limit term, Rebind (Some g'), Elapse d] i)
               (snd (fetch low cls (run low [Fetch cls limit term, Rebind (Some g'), Elapse d] i) limit term)))
            = [backend_event cls limit term]"
proof (cases rule: fetch_outcome[of i low cls limit "term"])
  case NoClient
  with assms show ?thesis by simp
next
  case (Escaping g cm)
  with assms show ?thesis by (cases cls) auto
next
  case (Hit g cm rows)
  with assms show ?thesis by (cases cls) auto
next
  case (Fail g e)
  with assms show ?thesis by simp
next
  case (Stored g cm rows cm')
  with assms show ?thesis by simp
next
  case (Unstored g0 rows)
  with assms have rows: "rows = []" by simp
  let ?k = "cache_key cls limit term"
  let ?i2 = "run low [Fetch cls limit term, Rebind (Some g'), Elapse d] i"
  from Unstored rows have first:
    "fetch low cls i limit term = ([], log (backend_event cls limit term) (snd (cache_get i ?k)))"
    by (simp add: filtered_Nil)
  have same: "cache_manager (snd (fetch low cls i limit term)) = cache_manager i"
    by (simp add: first cache_get_def log_def split: option.splits)
  have client2: "gomanage_client ?i2 = Some g'"
    by (simp add: elapse_def split: option.splits)
  have "cache_manager ?i2 = None \<or> (\<exists>cm. cache_manager ?i2 = Some cm \<and> misses cm ?k)"
  proof (cases "cache_manager i")
    case None
    with same show ?thesis by (simp add: elapse_def)
  next
    case (Some cm)
    with Unstored(2) have "misses cm ?k" by simp
    then have "misses (cm\<lparr>now := now cm + d\<rparr>) ?k" by (rule misses_later)
    with same Some show ?thesis by (simp add: elapse_def)
  qed
  from miss_backend_calls[OF client2 this]
  show ?thesis by (simp add: same) (simp add: first events_after_get)
qed

theorem C5_no_negative_caching_witness:
  "gomanage_client (sample_info\<lparr>gomanage_client := Some (sample_client\<lparr>get_invoices := \<lambda>l d. Inr []\<rparr>)\<rparr>)
     = Some (sample_client\<lparr>get_invoices := \<lambda>l d. Inr []\<rparr>)
   \<and> backend_list (sample_client\<lparr>get_invoices := \<lambda>l d. Inr []\<rparr>) Invoice 50 None = Inr []
   \<and> events_since (sample_info\<lparr>gomanage_client := Some (sample_client\<lparr>get_invoices := \<lambda>l d. Inr []\<rparr>)\<rparr>)
        (snd (fetch sample_lower Invoice (sample_info\<lparr>gomanage_client := Some (sample_client\<lparr>get_invoices := \<lambda>l d. Inr []\<rparr>)\<rparr>) 50 None))
       = [CacheGet ''invoices_50_all'', GetInvoices 50 None]
   \<and> backend_calls
        (events_since
           (run sample_lower [Fetch Invoice 50 None, Rebind (Some sample_client), Elapse 9]
              (sample_info\<lparr>gomanage_client := Some (sample_client\<lparr>get_invoices := \<lambda>l d. Inr []\<rparr>)\<rparr>))
           (snd (fetch sample_lower Invoice
                  (run sample_lower [Fetch Invoice 50 None, Rebind (Some sample_client), Elapse 9]
                     (sample_info\<lparr>gomanage_client := Some (sample_client\<lparr>get_invoices := \<lambda>l d. Inr []\<rparr>)\<rparr>))
                  50 None)))
       = [GetInvoices 50 None]"
proof -
  let ?g = "sample_client\<lparr>get_invoices := \<lambda>l d. Inr []\<rparr>"
  let ?i = "sample_info\<lparr>gomanage_client := Some ?g\<rparr>"
  have c: "gomanage_client ?i = Some ?g" by simp
  have b: "backend_list ?g Invoice 50 None = Inr []" by simp
  have ev: "events_since ?i (snd (fetch sample_lower Invoice ?i 50 None))
       = [CacheGet ''invoices_50_all'', GetInvoices 50 None]"
    by (simp add: resolver_defs trace_defs sample_defs)
  then have r: "backend_event Invoice 50 None \<in> set (events_since ?i (snd (fetch sample_lower Invoice ?i 50 None)))"
    by simp
  from C5_no_negative_caching[OF c b r, of sample_client 9] c b ev
  show ?thesis by simp
qed


section \<open>Failures are values\<close>

lemma fetch_is_guarded_try: "fetch low cls i limit term = except_empty (fetch_try low cls i limit term)"
  by (cases cls)
     (simp_all add: resolve_customers_def resolve_products_def resolve_invoices_def)

lemma filtered_no_term: "filtered low cls None rows = rows"
  by (cases cls) (simp_all add: filtered_def customers_filter_def products_filter_def)

lemma backend_failure_gives_empty:
  assumes "gomanage_client i = Some g" and "backend_list g cls limit term = Inl e"
    and "backend_event cls limit term \<in> set (events_since i (snd (fetch low cls i limit term)))"
  shows "fst (fetch low cls i limit term) = []"
proof (cases rule: fetch_outcome[of i low cls limit "term"])
  case (Escaping g cm)
  with assms show ?thesis by simp
next
  case (Hit g cm rows)
  with assms show ?thesis by (cases cls) auto
qed (use assms in simp_all)

text \<open>
  Claim C6. A resolver never raises: its result is the result of the body of its \<^verbatim>\<open>try\<close>
  when that returns, and the empty list when that raises. In particular the result is the
  empty list when no backend client is configured, when the backend call is made and fails,
  and when a cache call raises. With no cache manager configured every call goes to the
  backend (one call, no cache event) and returns what the backend returned, filtered by the
  term if there is one.
\<close>

theorem C6_fetch_never_raises:
  "(case fetch_try low cls i limit term of
      (Inl e, i') \<Rightarrow> fetch low cls i limit term = ([], i')
    | (Inr rows, i') \<Rightarrow> fetch low cls i limit term = (rows, i'))
   \<and> (gomanage_client i = None \<longrightarrow> fetch low cls i limit term = ([], i))
   \<and> (\<forall>g e. gomanage_client i = Some g \<and> backend_list g cls limit term = Inl e
          \<and> backend_event cls limit term \<in> set (events_since i (snd (fetch low cls i limit term)))
          \<longrightarrow> fst (fetch low cls i limit term) = [])
   \<and> (\<forall>g cm. gomanage_client i = Some g \<and> cache_manager i = Some cm \<and> health cm = Escaping
          \<longrightarrow> fst (fetch low cls i limit term) = [])
   \<and> (\<forall>g rows. gomanage_client i = Some g \<and> cache_manager i = None
          \<and> backend_list g cls limit term = Inr rows
          \<longrightarrow> fetch low cls i limit term
                = (filtered low cls term rows, log (backend_event cls limit term) i)
              \<and> filtered low cls None rows = rows)"
proof (intro conjI allI impI)
  show "case fetch_try low cls i limit term of
      (Inl e, i') \<Rightarrow> fetch low cls i limit term = ([], i')
    | (Inr rows, i') \<Rightarrow> fetch low cls i limit term = (rows, i')"
    by (simp add: fetch_is_guarded_try except_empty_def split: prod.splits sum.splits)
  show "fetch low cls i limit term = ([], i)" if "gomanage_client i = None"
    using that by (rule fetch_no_client)
  show "fst (fetch low cls i limit term) = []"
    if "gomanage_client i = Some g \<and> backend_list g cls limit term = Inl e
          \<and> backend_event cls limit term \<in> set (events_since i (snd (fetch low cls i limit term)))"
    for g e
    using that backend_failure_gives_empty by blast
  show "fst (fetch low cls i limit term) = []"
    if "gomanage_client i = Some g \<and> cache_manager i = Some cm \<and> health cm = Escaping" for g cm
    using that fetch_escaping[of i g cm low cls limit "term"] by simp
  show "fetch low cls i limit term = (filtered low cls term rows, log (backend_event cls limit term) i)"
    if "gomanage_client i = Some g \<and> cache_manager i = None
          \<and> backend_list g cls limit term = Inr rows" for g rows
    using that fetch_no_cache by blast
  show "filtered low cls None rows = rows" for rows
    by (rule filtered_no_term)
qed

theorem C6_fetch_never_raises_witness:
  "fetch sample_lower Customer (sample_info\<lparr>gomanage_client := None\<rparr>) 100 None
     = ([], sample_info\<lparr>gomanage_client := None\<rparr>)
   \<and> backend_list (sample_client\<lparr>get_products := \<lambda>l. Inl (Failure ''timeout'')\<rparr>) Product 100 None
       = Inl (Failure ''timeout'')
   \<and> events_since
         (sample_info\<lparr>gomanage_client := Some (sample_client\<lparr>get_products := \<lambda>l. Inl (Failure ''timeout'')\<rparr>)\<rparr>)
         (snd (fetch sample_lower Product
            (sample_info\<lparr>gomanage_client := Some (sample_client\<lparr>get_products := \<lambda>l. Inl (Failure ''timeout'')\<rparr>)\<rparr>)
            100 None))
       = [CacheGet ''products_100_all'', GetProducts 100]
   \<and> fst (fetch sample_lower Product
         (sample_info\<lparr>gomanage_client := Some (sample_client\<lparr>get_products := \<lambda>l. Inl (Failure ''timeout'')\<rparr>)\<rparr>)
         100 None) = []
   \<and> fst (fetch sample_lower Invoice (sample_info\<lparr>cache_manager := Some (empty_store\<lparr>health := Escaping\<rparr>)\<rparr>) 50 None)
       = []
   \<and> fetch sample_lower Customer (sample_info\<lparr>cache_manager := None\<rparr>) 100 None
       = ([acme], log (GetCustomers 100) (sample_info\<lparr>cache_manager := None\<rparr>))"
proof -
  let ?down = "sample_client\<lparr>get_products := \<lambda>l. Inl (Failure ''timeout'')\<rparr>"
  let ?a = "sample_info\<lparr>gomanage_client := None\<rparr>"
  let ?b = "sample_info\<lparr>gomanage_client := Some ?down\<rparr>"
  let ?c = "sample_info\<lparr>cache_manager := Some (empty_store\<lparr>health := Escaping\<rparr>)\<rparr>"
  let ?d = "sample_info\<lparr>cache_manager := None\<rparr>"
  have a: "gomanage_client ?a = None" by simp
  have b1: "gomanage_client ?b = Some ?down" by simp
  have b2: "backend_list ?down Product 100 None = Inl (Failure ''timeout'')" by simp
  have b3: "events_since ?b (snd (fetch sample_lower Product ?b 100 None))
              = [CacheGet ''products_100_all'', GetProducts 100]"
    by (simp add: resolver_defs trace_defs sample_defs)
  then have b4: "backend_event Product 100 None \<in> set (events_since ?b (snd (fetch sample_lower Product ?b 100 None)))"
    by simp
  have c: "gomanage_client ?c = Some sample_client"
    "cache_manager ?c = Some (empty_store\<lparr>health := Escaping\<rparr>)"
    "health (empty_store\<lparr>health := Escaping\<rparr>) = Escaping"
    by (simp_all add: sample_info_def)
  have d: "gomanage_client ?d = Some sample_client" "cache_manager ?d = None"
    "backend_list sample_client Customer 100 None = Inr [acme]"
    by (simp_all add: sample_info_def sample_client_def)
  from C6_fetch_never_raises[of sample_lower Customer ?a 100 None] a
  have "fetch sample_lower Customer ?a 100 None = ([], ?a)" by blast
  moreover from C6_fetch_never_raises[of sample_lower Product ?b 100 None] b1 b2 b4
  have "fst (fetch sample_lower Product ?b 100 None) = []" by blast
  moreover from C6_fetch_never_raises[of sample_lower Invoice ?c 50 None] c
  have "fst (fetch sample_lower Invoice ?c 50 None) = []" by blast
  moreover from C6_fetch_never_raises[of sample_lower Customer ?d 100 None] d
  have "fetch sample_lower Customer ?d 100 None = (filtered sample_lower Customer None [acme], log (backend_event Customer 100 None) ?d)"
    by blast
  ultimately show ?thesis
    using b2 b3 by (simp add: filtered_no_term)
qed


section \<open>What a fetch writes\<close>

lemma fetch_writes:
  assumes "e \<in> set (cache_writes (events_since i (snd (fetch low cls i limit term))))"
  shows "\<exists>g rows. gomanage_client i = Some g \<and> backend_list g cls limit term = Inr rows
           \<and> rows \<noteq> [] \<and> e = CacheSet (cache_key cls limit term) rows (ttl_of cls)"
proof (cases rule: fetch_outcome[of i low cls limit "term"])
  case (Stored g cm rows cm')
  with assms show ?thesis by simp
qed (use assms in \<open>auto simp: events_after_get split: if_splits\<close>)

lemma visible_entry_hits:
  assumes "entries cm k = Some e" "entry_value e \<noteq> []" "now cm < expires_at e"
  shows "\<not> misses cm k \<or> health cm = Absorbed"
  using assms by (cases "health cm") (auto simp: misses_def cm_get_def visible_def)

lemma fetch_keeps_entry:
  assumes cache: "cache_manager i = Some cm"
  shows "\<exists>cm1. cache_manager (snd (fetch low cls i limit term)) = Some cm1 \<and> now cm1 = now cm
           \<and> (entries cm k = Some e \<and> entry_value e \<noteq> [] \<and> now cm < expires_at e
                \<longrightarrow> entries cm1 k = Some e)"
proof (cases rule: fetch_outcome[of i low cls limit "term"])
  case (Stored g cm0 rows cm')
  with cache have cm0: "cm0 = cm" by simp
  from Stored(3) show ?thesis
  proof (cases rule: misses_set[where k' = "cache_key cls limit term" and v = rows and t = "ttl_of cls"])
    case Up
    with Stored cm0 have cm': "cm' = cm\<lparr>entries := (entries cm)(cache_key cls limit term \<mapsto>
        \<lparr>entry_value = rows, expires_at = now cm + ttl_of cls\<rparr>)\<rparr>"
      by simp
    have "entries cm' k = Some e"
      if "entries cm k = Some e" "entry_value e \<noteq> []" "now cm < expires_at e"
    proof (cases "k = cache_key cls limit term")
      case True
      with visible_entry_hits[OF that] Stored(3) Up(1) cm0 show ?thesis by simp
    next
      case False
      with that cm' show ?thesis by simp
    qed
    with Stored cm' show ?thesis by simp
  next
    case Absorbed
    with Stored cm0 show ?thesis by simp
  qed
qed (use cache in \<open>simp_all add: log_def cache_get_def\<close>)

lemma perform_keeps_entry:
  assumes "cache_manager i = Some cm"
  shows "\<exists>cm1. cache_manager (perform low r i) = Some cm1 \<and> now cm \<le> now cm1
           \<and> (entries cm k = Some e \<and> entry_value e \<noteq> [] \<and> now cm < expires_at e
                \<longrightarrow> entries cm1 k = Some e)"
proof (cases r)
  case (Fetch cls limit t)
  with fetch_keeps_entry[OF assms, of low cls limit t k e] show ?thesis by auto
next
  case (Elapse d)
  with assms show ?thesis by (simp add: elapse_def)
next
  case (Rebind g)
  with assms show ?thesis by simp
qed

lemma run_keeps_entry:
  assumes "cache_manager i = Some cm"
  shows "\<exists>cm'. cache_manager (run low rs i) = Some cm' \<and> now cm \<le> now cm'
           \<and> (entries cm k = Some e \<and> entry_value e \<noteq> [] \<and> now cm' < expires_at e
                \<longrightarrow> entries cm' k = Some e)"
  using assms
proof (induction rs arbitrary: i cm)
  case Nil
  then show ?case by simp
next
  case (Cons r rs)
  from perform_keeps_entry[OF Cons.prems, of low r k e] obtain cm1 where
    step: "cache_manager (perform low r i) = Some cm1" "now cm \<le> now cm1"
      "entries cm k = Some e \<and> entry_value e \<noteq> [] \<and> now cm < expires_at e \<longrightarrow> entries cm1 k = Some e"
    by blast
  from Cons.IH[OF step(1)] obtain cm' where
    rest: "cache_manager (run low rs (perform low r i)) = Some cm'" "now cm1 \<le> now cm'"
      "entries cm1 k = Some e \<and> entry_value e \<noteq> [] \<and> now cm' < expires_at e \<longrightarrow> entries cm' k = Some e"
    by blast
  from step rest show ?case by auto
qed

text \<open>
  Claim C10. A fetch that hits the cache makes one \<^verbatim>\<open>get\<close> and nothing else: no \<^verbatim>\<open>set\<close>, no
  \<^verbatim>\<open>delete\<close>, and the store is as before. The only write a fetch ever makes is the \<^verbatim>\<open>set\<close>
  of the full, unfiltered list that the backend returned on a miss; the filtered result is
  never written. Hence in every sequence of fetches (with time passing and the remote data
  changing in between) a non-empty entry that has not expired at the end is still the entry
  that was stored.
\<close>

theorem C10_hit_path_writes_nothing:
  "(\<forall>g cm rows. gomanage_client i = Some g \<and> cache_manager i = Some cm
        \<and> cm_get cm (cache_key cls limit term) = Inr (Some rows) \<and> rows \<noteq> []
        \<longrightarrow> events_since i (snd (fetch low cls i limit term)) = [CacheGet (cache_key cls limit term)]
            \<and> cache_manager (snd (fetch low cls i limit term)) = cache_manager i)
   \<and> (\<forall>e \<in> set (cache_writes (events_since i (snd (fetch low cls i limit term)))).
        \<exists>g rows. gomanage_client i = Some g \<and> backend_list g cls limit term = Inr rows
          \<and> rows \<noteq> [] \<and> e = CacheSet (cache_key cls limit term) rows (ttl_of cls))
   \<and> (\<forall>cm entry cm'. cache_manager i = Some cm \<and> entries cm k = Some entry
        \<and> entry_value entry \<noteq> [] \<and> cache_manager (run low rs i) = Some cm'
        \<and> now cm' < expires_at entry
        \<longrightarrow> entries cm' k = Some entry)"
proof (intro conjI allI impI ballI)
  fix g cm rows
  assume "gomanage_client i = Some g \<and> cache_manager i = Some cm
        \<and> cm_get cm (cache_key cls limit term) = Inr (Some rows) \<and> rows \<noteq> []"
  then have "fetch low cls i limit term
      = (filtered low cls term rows, log (CacheGet (cache_key cls limit term)) i)"
    using fetch_hit by blast
  then show "events_since i (snd (fetch low cls i limit term)) = [CacheGet (cache_key cls limit term)]"
    and "cache_manager (snd (fetch low cls i limit term)) = cache_manager i"
    by (simp_all add: log_def events_since_def)
next
  fix e
  assume "e \<in> set (cache_writes (events_since i (snd (fetch low cls i limit term))))"
  then show "\<exists>g rows. gomanage_client i = Some g \<and> backend_list g cls limit term = Inr rows
          \<and> rows \<noteq> [] \<and> e = CacheSet (cache_key cls limit term) rows (ttl_of cls)"
    by (rule fetch_writes)
next
  fix cm entry cm'
  assume "cache_manager i = Some cm \<and> entries cm k = Some entry
        \<and> entry_value entry \<noteq> [] \<and> cache_manager (run low rs i) = Some cm'
        \<and> now cm' < expires_at entry"
  with run_keeps_entry[of i cm low rs k entry]
  show "entries cm' k = Some entry" by auto
qed

theorem C10_hit_path_writes_nothing_witness:
  "cm_get \<lparr>entries = [''customers_100_all'' \<mapsto> \<lparr>entry_value = [acme], expires_at = 3600\<rparr>],
            now = 0, health = Up\<rparr> (cache_key Customer 100 None) = Inr (Some [acme])
   \<and> cache_manager (run sample_lower [Fetch Customer 100 None] sample_info)
       = Some \<lparr>entries = [''customers_100_all'' \<mapsto> \<lparr>entry_value = [acme], expires_at = 3600\<rparr>],
               now = 0, health = Up\<rparr>
   \<and> events_since (run sample_lower [Fetch Customer 100 None] sample_info)
         (snd (fetch sample_lower Customer (run sample_lower [Fetch Customer 100 None] sample_info) 100 None))
       = [CacheGet (cache_key Customer 100 None)]
   \<and> cache_manager (snd (fetch sample_lower Customer (run sample_lower [Fetch Customer 100 None] sample_info) 100 None))
       = cache_manager (run sample_lower [Fetch Customer 100 None] sample_info)
   \<and> cache_writes (events_since sample_info (snd (fetch sample_lower Customer sample_info 100 None)))
       = [CacheSet ''customers_100_all'' [acme] 3600]
   \<and> backend_list sample_client Customer 100 None = Inr [acme]
   \<and> cache_manager
         (run sample_lower [Fetch Customer 100 (Some ''acme''), Elapse 10, Fetch Customer 100 None]
            (run sample_lower [Fetch Customer 100 None] sample_info))
       = Some \<lparr>entries = [''customers_100_all'' \<mapsto> \<lparr>entry_value = [acme], expires_at = 3600\<rparr>,
                          ''customers_100_acme'' \<mapsto> \<lparr>entry_value = [acme], expires_at = 3600\<rparr>],
               now = 10, health = Up\<rparr>"
proof -
  let ?k = "''customers_100_all''"
  let ?entry = "\<lparr>entry_value = [acme], expires_at = 3600\<rparr>"
  let ?cm = "\<lparr>entries = [?k \<mapsto> ?entry], now = 0, health = Up\<rparr>"
  let ?cm' = "\<lparr>entries = [?k \<mapsto> ?entry, ''customers_100_acme'' \<mapsto> ?entry],
               now = 10, health = Up\<rparr>"
  let ?p = "run sample_lower [Fetch Customer 100 None] sample_info"
  let ?rs = "[Fetch Customer 100 (Some ''acme''), Elapse 10, Fetch Customer 100 None]"
  have key: "cache_key Customer 100 None = ?k"
    by (simp add: sample_defs)
  have p: "gomanage_client ?p = Some sample_client" "cache_manager ?p = Some ?cm"
    by (simp_all add: resolver_defs sample_defs filter_defs)
  have hit: "cm_get ?cm (cache_key Customer 100 None) = Inr (Some [acme])" "[acme] \<noteq> []"
    by (simp_all add: sample_defs cm_get_def visible_def)
  have entry: "entries ?cm ?k = Some ?entry" "entry_value ?entry \<noteq> []"
    by simp_all
  have final: "cache_manager (run sample_lower ?rs ?p) = Some ?cm'" "now ?cm' < expires_at ?entry"
    by (simp_all add: resolver_defs sample_defs filter_defs elapse_def acme_def fun_upd_twist)
  have writes: "cache_writes (events_since sample_info (snd (fetch sample_lower Customer sample_info 100 None)))
       = [CacheSet ?k [acme] 3600]"
    by (simp add: resolver_defs trace_defs sample_defs filter_defs)
  have backend: "backend_list sample_client Customer 100 None = Inr [acme]"
    by (simp add: sample_client_def)
  note inst = C10_hit_path_writes_nothing[of ?p Customer 100 None sample_lower ?k ?rs]
  from inst p hit
  have "events_since ?p (snd (fetch sample_lower Customer ?p 100 None)) = [CacheGet (cache_key Customer 100 None)]
      \<and> cache_manager (snd (fetch sample_lower Customer ?p 100 None)) = cache_manager ?p"
    by blast
  moreover from inst p entry final have "entries ?cm' ?k = Some ?entry"
    by blast
  moreover from C10_hit_path_writes_nothing[of sample_info Customer 100 None sample_lower] writes
  have "\<exists>g rows. gomanage_client sample_info = Some g
      \<and> backend_list g Customer 100 None = Inr rows \<and> rows \<noteq> []
      \<and> CacheSet ?k [acme] 3600 = CacheSet (cache_key Customer 100 None) rows (ttl_of Customer)"
    by simp
  ultimately show ?thesis
    using p hit final writes backend by simp
qed


section \<open>The search filter\<close>












section \<open>Lookup by identifier\<close>

lemma scan_find: "scan key wanted rows = find (\<lambda>r. py_eq (dict_get r key) wanted) rows"
  by (induction rows) simp_all

text \<open>
  Claim C8 says that a lookup by identifier is the fetch of the class at limit 1000 with no
  term, followed by a linear scan for the first record whose identifier attribute equals the
  identifier. The three resolvers are written to do that, and do it when called on a
  \<^verbatim>\<open>Query\<close> object. Called by the GraphQL library, with \<^verbatim>\<open>None\<close> in the place of
  \<^verbatim>\<open>self\<close>, the method lookup on \<^verbatim>\<open>self\<close> raises inside the \<^verbatim>\<open>try\<close>: the resolver returns
  \<^verbatim>\<open>None\<close> and fetches nothing, also when the listing holds the record, as for the sample
  customer 7.
\<close>

theorem C8_fetch_by_id_root_none:
  "resolve_customer low NoneRoot i customer_id = (None, i)
   \<and> resolve_product low NoneRoot i product_id = (None, i)
   \<and> resolve_invoice NoneRoot i invoice_id = (None, i)
   \<and> resolve_customer low QueryObject i customer_id
     = (find (\<lambda>r. py_eq (dict_get r ''customer_id'') (PInt customer_id))
          (fst (fetch low Customer i 1000 None)),
        snd (fetch low Customer i 1000 None))
   \<and> resolve_product low QueryObject i product_id
     = (find (\<lambda>r. py_eq (dict_get r ''product_id'') (PStr product_id))
          (fst (fetch low Product i 1000 None)),
        snd (fetch low Product i 1000 None))
   \<and> resolve_invoice QueryObject i invoice_id
     = (find (\<lambda>r. py_eq (dict_get r ''invoice_id'') (PInt invoice_id))
          (fst (fetch low Invoice i 1000 None)),
        snd (fetch low Invoice i 1000 None))
   \<and> find (\<lambda>r. py_eq (dict_get r ''customer_id'') (PInt 7))
        (fst (fetch sample_lower Customer sample_info 1000 None)) = Some acme
   \<and> resolve_customer sample_lower NoneRoot sample_info 7 = (None, sample_info)"
proof -
  have "fst (fetch sample_lower Customer sample_info 1000 None) = [acme]"
    by (simp add: resolver_defs sample_defs filter_defs)
  then have "find (\<lambda>r. py_eq (dict_get r ''customer_id'') (PInt 7))
        (fst (fetch sample_lower Customer sample_info 1000 None)) = Some acme"
    by (simp add: py_eq_def dict_get_def acme_def)
  then show ?thesis
    by (simp add: resolve_customer_def resolve_customer_try_def resolve_product_def
        resolve_product_try_def resolve_invoice_def resolve_invoice_try_def except_none_def
        scan_find case_prod_beta)
qed


section \<open>Creating a customer\<close>

lemmas mutate_defs = mutate_def mutate_try_def clear_customer_cache_def cache_delete_def
  cm_delete_def log_def Let_def

text \<open>
  Claim C4. When the backend call of a customer creation succeeds (returns a truthy value)
  and the cache store is reachable, the creation reports success and deletes the two keys of
  the default customer listings, \<^verbatim>\<open>customers_100_all\<close> and \<^verbatim>\<open>customers_1000_all\<close> (the keys
  that a fetch of customers with no term derives for the limits 100 and 1000): they are
  absent from the store afterwards and nothing else in the store has changed. When the
  backend call fails (raises or returns a falsy value) the creation returns
  \<^verbatim>\<open>success = False\<close> with a non-empty message, makes no cache call, and leaves the store
  as it was.
\<close>

theorem C4_create_invalidation:
  assumes "gomanage_client i = Some g"
  shows "(\<forall>v cm. create_customer g (customer_data_of business_name vat_number kwargs) = Inr v
            \<and> truthy v \<and> cache_manager i = Some cm \<and> health cm = Up
          \<longrightarrow> success (fst (mutate i business_name vat_number kwargs))
            \<and> events_since i (snd (mutate i business_name vat_number kwargs))
                = [CreateCustomerCall (customer_data_of business_name vat_number kwargs),
                   CacheDelete (cache_key Customer 100 None),
                   CacheDelete (cache_key Customer 1000 None)]
            \<and> cache_manager (snd (mutate i business_name vat_number kwargs))
                = Some (cm\<lparr>entries := (entries cm)(''customers_100_all'' := None,
                                                     ''customers_1000_all'' := None)\<rparr>)
            \<and> cm_get (cm\<lparr>entries := (entries cm)(''customers_100_all'' := None,
                                                   ''customers_1000_all'' := None)\<rparr>)
                  (cache_key Customer 100 None) = Inr None
            \<and> cm_get (cm\<lparr>entries := (entries cm)(''customers_100_all'' := None,
                                                   ''customers_1000_all'' := None)\<rparr>)
                  (cache_key Customer 1000 None) = Inr None)
       \<and> ((\<exists>e. create_customer g (customer_data_of business_name vat_number kwargs) = Inl e)
            \<or> (\<exists>v. create_customer g (customer_data_of business_name vat_number kwargs) = Inr v
                  \<and> \<not> truthy v)
          \<longrightarrow> \<not> success (fst (mutate i business_name vat_number kwargs))
            \<and> message (fst (mutate i business_name vat_number kwargs)) \<noteq> []
            \<and> customer (fst (mutate i business_name vat_number kwargs)) = None
            \<and> events_since i (snd (mutate i business_name vat_number kwargs))
                = [CreateCustomerCall (customer_data_of business_name vat_number kwargs)]
            \<and> cache_manager (snd (mutate i business_name vat_number kwargs)) = cache_manager i)"
proof -
  have keys: "customers_key 100 None = ''customers_100_all''"
    "customers_key 1000 None = ''customers_1000_all''"
    by (simp_all add: customers_key_def or_all_def str_int_def digits.simps digit_char_def)
  show ?thesis
    using assms
    by (auto simp: keys mutate_defs events_since_def cm_get_def visible_def)
qed

theorem C4_create_invalidation_witness:
  "events_since (run sample_lower [Fetch Customer 100 None, Fetch Customer 1000 None, Fetch Customer 100 (Some ''b1'')]
                   sample_info)
     (snd (mutate (run sample_lower [Fetch Customer 100 None, Fetch Customer 1000 None, Fetch Customer 100 (Some ''b1'')]
                     sample_info)
             (PStr ''Initech'') (PStr ''B777'') Map.empty))
     = [CreateCustomerCall (customer_data_of (PStr ''Initech'') (PStr ''B777'') Map.empty),
        CacheDelete ''customers_100_all'', CacheDelete ''customers_1000_all'']
   \<and> map_option (\<lambda>cm. map (entries cm) [''customers_100_all'', ''customers_1000_all'', ''customers_100_b1''])
        (cache_manager
          (run sample_lower [Fetch Customer 100 None, Fetch Customer 1000 None, Fetch Customer 100 (Some ''b1'')]
             sample_info))
       = Some [Some \<lparr>entry_value = [acme], expires_at = 3600\<rparr>,
               Some \<lparr>entry_value = [acme], expires_at = 3600\<rparr>,
               Some \<lparr>entry_value = [acme], expires_at = 3600\<rparr>]
   \<and> map_option (\<lambda>cm. map (entries cm) [''customers_100_all'', ''customers_1000_all'', ''customers_100_b1''])
        (cache_manager
          (snd (mutate (run sample_lower [Fetch Customer 100 None, Fetch Customer 1000 None, Fetch Customer 100 (Some ''b1'')]
                          sample_info)
                  (PStr ''Initech'') (PStr ''B777'') Map.empty)))
       = Some [None, None, Some \<lparr>entry_value = [acme], expires_at = 3600\<rparr>]
   \<and> success (fst (mutate (run sample_lower [Fetch Customer 100 None, Fetch Customer 1000 None, Fetch Customer 100 (Some ''b1'')]
                             sample_info)
                     (PStr ''Initech'') (PStr ''B777'') Map.empty))
   \<and> \<not> success (fst (mutate (sample_info\<lparr>gomanage_client :=
                          Some (sample_client\<lparr>create_customer := \<lambda>d. Inr PNone\<rparr>)\<rparr>)
                       (PStr ''Initech'') (PStr ''B777'') Map.empty))
   \<and> message (fst (mutate (sample_info\<lparr>gomanage_client :=
                          Some (sample_client\<lparr>create_customer := \<lambda>d. Inr PNone\<rparr>)\<rparr>)
                       (PStr ''Initech'') (PStr ''B777'') Map.empty))
       = ''Error creando cliente en GoManage''
   \<and> message (fst (mutate (sample_info\<lparr>gomanage_client :=
                          Some (sample_client\<lparr>create_customer := \<lambda>d. Inl (Failure ''timeout'')\<rparr>)\<rparr>)
                       (PStr ''Initech'') (PStr ''B777'') Map.empty))
       = ''Error: timeout''
   \<and> cache_manager (snd (mutate (sample_info\<lparr>gomanage_client :=
                          Some (sample_client\<lparr>create_customer := \<lambda>d. Inl (Failure ''timeout'')\<rparr>)\<rparr>)
                       (PStr ''Initech'') (PStr ''B777'') Map.empty))
       = Some empty_store"
proof -
  let ?p = "run sample_lower [Fetch Customer 100 None, Fetch Customer 1000 None, Fetch Customer 100 (Some ''b1'')]
              sample_info"
  let ?entry = "\<lparr>entry_value = [acme], expires_at = 3600\<rparr>"
  let ?cm = "\<lparr>entries = [''customers_100_all'' \<mapsto> ?entry, ''customers_1000_all'' \<mapsto> ?entry,
                          ''customers_100_b1'' \<mapsto> ?entry], now = 0, health = Up\<rparr>"
  let ?falsy = "sample_client\<lparr>create_customer := \<lambda>d. Inr PNone\<rparr>"
  let ?raising = "sample_client\<lparr>create_customer := \<lambda>d. Inl (Failure ''timeout'')\<rparr>"
  let ?data = "customer_data_of (PStr ''Initech'') (PStr ''B777'') Map.empty"
  have p: "gomanage_client ?p = Some sample_client" "cache_manager ?p = Some ?cm"
    by (simp_all add: resolver_defs sample_defs filter_defs acme_def)
  have ok: "create_customer sample_client ?data = Inr (PBool True)" "truthy (PBool True)"
    "health ?cm = Up"
    by (simp_all add: sample_client_def)
  have keys: "cache_key Customer 100 None = ''customers_100_all''"
    "cache_key Customer 1000 None = ''customers_1000_all''"
    by (simp_all add: sample_defs)
  from C4_create_invalidation[OF p(1), of "PStr ''Initech''" "PStr ''B777''" Map.empty] p(2) ok
  have good: "success (fst (mutate ?p (PStr ''Initech'') (PStr ''B777'') Map.empty))
      \<and> events_since ?p (snd (mutate ?p (PStr ''Initech'') (PStr ''B777'') Map.empty))
          = [CreateCustomerCall ?data, CacheDelete (cache_key Customer 100 None),
             CacheDelete (cache_key Customer 1000 None)]
      \<and> cache_manager (snd (mutate ?p (PStr ''Initech'') (PStr ''B777'') Map.empty))
          = Some (?cm\<lparr>entries := (entries ?cm)(''customers_100_all'' := None,
                                                 ''customers_1000_all'' := None)\<rparr>)"
    by blast
  have f: "gomanage_client (sample_info\<lparr>gomanage_client := Some ?falsy\<rparr>) = Some ?falsy"
    "create_customer ?falsy ?data = Inr PNone" "\<not> truthy PNone"
    by simp_all
  from C4_create_invalidation[OF f(1), of "PStr ''Initech''" "PStr ''B777''" Map.empty] f(2,3)
  have bad1: "\<not> success (fst (mutate (sample_info\<lparr>gomanage_client := Some ?falsy\<rparr>)
                       (PStr ''Initech'') (PStr ''B777'') Map.empty))"
    by blast
  have r: "gomanage_client (sample_info\<lparr>gomanage_client := Some ?raising\<rparr>) = Some ?raising"
    "create_customer ?raising ?data = Inl (Failure ''timeout'')"
    by simp_all
  from C4_create_invalidation[OF r(1), of "PStr ''Initech''" "PStr ''B777''" Map.empty] r(2)
  have bad2: "cache_manager (snd (mutate (sample_info\<lparr>gomanage_client := Some ?raising\<rparr>)
                       (PStr ''Initech'') (PStr ''B777'') Map.empty))
              = cache_manager (sample_info\<lparr>gomanage_client := Some ?raising\<rparr>)"
    by blast
  have msgs: "message (fst (mutate (sample_info\<lparr>gomanage_client := Some ?falsy\<rparr>)
                       (PStr ''Initech'') (PStr ''B777'') Map.empty))
       = ''Error creando cliente en GoManage''"
    "message (fst (mutate (sample_info\<lparr>gomanage_client := Some ?raising\<rparr>)
                       (PStr ''Initech'') (PStr ''B777'') Map.empty))
       = ''Error: timeout''"
    by (simp_all add: mutate_defs)
  from good bad1 bad2 msgs p keys show ?thesis
    by (simp add: sample_info_def)
qed


section \<open>One cache entry per term\<close>

text \<open>
  Claim C2 as stated fails: the search term is part of the key, so two searches at the same
  limit read and populate two entries, each with its own backend call.
\<close>

theorem C2_shared_entry_counterexample:
  "cache_key Customer 100 (Some ''foo'') \<noteq> cache_key Customer 100 (Some ''bar'')
   \<and> trace (run sample_lower [Fetch Customer 100 (Some ''foo''), Fetch Customer 100 (Some ''bar'')] sample_info)
       = [CacheGet ''customers_100_foo'', GetCustomers 100,
          CacheSet ''customers_100_foo'' [acme] 3600,
          CacheGet ''customers_100_bar'', GetCustomers 100,
          CacheSet ''customers_100_bar'' [acme] 3600]"
  by (simp add: resolver_defs sample_defs filter_defs acme_def)

text \<open>
  Claim C2, amended. For every resource class and every limit, a fetch with a term reads and
  populates the one cache entry whose key is derived from the class, the limit and its own
  term. Two terms share an entry exactly when they agree after \<^verbatim>\<open>or 'all'\<close>; two distinct
  non-empty terms use two distinct entries. What a fetch stores under its key is the full,
  unfiltered list the backend returned, which for customers and products does not depend on
  the term; each call filters its own working set.
\<close>

theorem C2_entry_per_term:
  "(\<forall>e \<in> set (events_since i (snd (fetch low cls i limit (Some s)))).
      cache_event_key e = None \<or> cache_event_key e = Some (cache_key cls limit (Some s)))
   \<and> (cache_key cls limit (Some s1) = cache_key cls limit (Some s2)
        \<longleftrightarrow> or_all (Some s1) = or_all (Some s2))
   \<and> (s1 \<noteq> [] \<and> s2 \<noteq> [] \<and> s1 \<noteq> s2
        \<longrightarrow> cache_key cls limit (Some s1) \<noteq> cache_key cls limit (Some s2))
   \<and> (\<forall>e \<in> set (cache_writes (events_since i (snd (fetch low cls i limit (Some s))))).
        \<exists>g rows. gomanage_client i = Some g \<and> backend_list g cls limit (Some s) = Inr rows
          \<and> e = CacheSet (cache_key cls limit (Some s)) rows (ttl_of cls))
   \<and> (cls \<noteq> Invoice \<longrightarrow> backend_list g cls limit (Some s1) = backend_list g cls limit (Some s2))"
proof (intro conjI ballI impI)
  fix e
  assume "e \<in> set (events_since i (snd (fetch low cls i limit (Some s))))"
  then show "cache_event_key e = None \<or> cache_event_key e = Some (cache_key cls limit (Some s))"
    by (rule fetch_cache_keys)
next
  show "cache_key cls limit (Some s1) = cache_key cls limit (Some s2)
        \<longleftrightarrow> or_all (Some s1) = or_all (Some s2)"
    by (simp add: cache_key_inj)
next
  assume "s1 \<noteq> [] \<and> s2 \<noteq> [] \<and> s1 \<noteq> s2"
  then show "cache_key cls limit (Some s1) \<noteq> cache_key cls limit (Some s2)"
    by (simp add: cache_key_inj or_all_def)
next
  fix e
  assume "e \<in> set (cache_writes (events_since i (snd (fetch low cls i limit (Some s)))))"
  from fetch_writes[OF this]
  show "\<exists>g rows. gomanage_client i = Some g \<and> backend_list g cls limit (Some s) = Inr rows
          \<and> e = CacheSet (cache_key cls limit (Some s)) rows (ttl_of cls)"
    by blast
next
  assume "cls \<noteq> Invoice"
  then show "backend_list g cls limit (Some s1) = backend_list g cls limit (Some s2)"
    by (cases cls) simp_all
qed

theorem C2_entry_per_term_witness:
  "events_since sample_info (snd (fetch sample_lower Customer sample_info 100 (Some ''foo'')))
     = [CacheGet ''customers_100_foo'', GetCustomers 100,
        CacheSet ''customers_100_foo'' [acme] 3600]
   \<and> cache_key Customer 100 (Some ''foo'') = ''customers_100_foo''
   \<and> backend_list sample_client Customer 100 (Some ''foo'') = Inr [acme]
   \<and> ''foo'' \<noteq> [] \<and> ''bar'' \<noteq> [] \<and> ''foo'' \<noteq> ''bar'' \<and> Customer \<noteq> Invoice
   \<and> cache_key Customer 100 (Some ''foo'') \<noteq> cache_key Customer 100 (Some ''bar'')
   \<and> backend_list sample_client Customer 100 (Some ''foo'')
       = backend_list sample_client Customer 100 (Some ''bar'')"
proof -
  have ev: "events_since sample_info (snd (fetch sample_lower Customer sample_info 100 (Some ''foo'')))
     = [CacheGet ''customers_100_foo'', GetCustomers 100,
        CacheSet ''customers_100_foo'' [acme] 3600]"
    by (simp add: resolver_defs trace_defs sample_defs filter_defs acme_def)
  have k: "cache_key Customer 100 (Some ''foo'') = ''customers_100_foo''"
    by (simp add: sample_defs)
  have b: "backend_list sample_client Customer 100 (Some ''foo'') = Inr [acme]"
    by (simp add: sample_client_def)
  have ne: "''foo'' \<noteq> [] \<and> ''bar'' \<noteq> [] \<and> ''foo'' \<noteq> ''bar''" "Customer \<noteq> Invoice"
    by simp_all
  note inst = C2_entry_per_term[of sample_info sample_lower Customer 100 "''foo''" "''foo''" "''bar''" sample_client]
  from inst ne have "cache_key Customer 100 (Some ''foo'') \<noteq> cache_key Customer 100 (Some ''bar'')"
    by blast
  moreover from inst ne have "backend_list sample_client Customer 100 (Some ''foo'')
       = backend_list sample_client Customer 100 (Some ''bar'')"
    by blast
  ultimately show ?thesis using ev k b ne by blast
qed


section \<open>Required arguments of the mutation\<close>

text \<open>
  Claim C9 as stated fails: \<^verbatim>\<open>mutate\<close> has no validation step, and a call without
  \<^verbatim>\<open>business_name\<close> does not produce a result object at all.
\<close>

theorem C9_validation_counterexample:
  "call_mutate sample_info [''vat_number'' \<mapsto> PStr ''B777'']
     = Inl (TypeError ''mutate() missing required argument'')"
  by (simp add: call_mutate_def)

text \<open>
  Claim C9, amended. The creation does not validate its payload. \<^verbatim>\<open>business_name\<close> and
  \<^verbatim>\<open>vat_number\<close> are mandatory parameters of \<^verbatim>\<open>mutate\<close> (declared \<^verbatim>\<open>required=True\<close>): a
  call that lacks one of them is rejected at the call, before the body and its \<^verbatim>\<open>try\<close> run,
  and yields no \<^verbatim>\<open>success = False\<close> result. A call that has both, whatever their values,
  runs the body, and with a backend client configured the body always reaches the backend
  call.
\<close>

theorem C9_required_arguments:
  "(args ''business_name'' = None \<or> args ''vat_number'' = None
      \<longrightarrow> (\<exists>m. call_mutate i args = Inl (TypeError m)))
   \<and> (\<forall>b v. args ''business_name'' = Some b \<and> args ''vat_number'' = Some v
        \<longrightarrow> call_mutate i args
            = Inr (mutate i b v (args(''business_name'' := None, ''vat_number'' := None))))
   \<and> (\<forall>g. gomanage_client i = Some g
        \<longrightarrow> CreateCustomerCall (customer_data_of business_name vat_number kwargs)
              \<in> set (events_since i (snd (mutate i business_name vat_number kwargs))))"
proof (intro conjI allI impI)
  assume "args ''business_name'' = None \<or> args ''vat_number'' = None"
  then show "\<exists>m. call_mutate i args = Inl (TypeError m)"
    by (auto simp: call_mutate_def split: option.splits)
next
  fix b v
  assume "args ''business_name'' = Some b \<and> args ''vat_number'' = Some v"
  then show "call_mutate i args
            = Inr (mutate i b v (args(''business_name'' := None, ''vat_number'' := None)))"
    by (simp add: call_mutate_def)
next
  fix g
  assume "gomanage_client i = Some g"
  then show "CreateCustomerCall (customer_data_of business_name vat_number kwargs)
              \<in> set (events_since i (snd (mutate i business_name vat_number kwargs)))"
    by (auto simp: mutate_defs events_since_def split: sum.splits option.splits prod.splits
        store_health.splits)
qed

theorem C9_required_arguments_witness:
  "call_mutate sample_info [''business_name'' \<mapsto> PStr ''Initech'']
     = Inl (TypeError ''mutate() missing required argument'')
   \<and> call_mutate sample_info [''business_name'' \<mapsto> PStr [], ''vat_number'' \<mapsto> PStr []]
     = Inr (mutate sample_info (PStr []) (PStr []) Map.empty)
   \<and> gomanage_client sample_info = Some sample_client
   \<and> events_since sample_info (snd (mutate sample_info (PStr []) (PStr []) Map.empty))
     = [CreateCustomerCall (customer_data_of (PStr []) (PStr []) Map.empty),
        CacheDelete ''customers_100_all'', CacheDelete ''customers_1000_all'']
   \<and> success (fst (mutate sample_info (PStr []) (PStr []) Map.empty))"
proof -
  let ?one = "[''business_name'' \<mapsto> PStr ''Initech'']"
  let ?both = "[''business_name'' \<mapsto> PStr [], ''vat_number'' \<mapsto> PStr []]"
  have missing: "?one ''business_name'' = None \<or> ?one ''vat_number'' = None" by simp
  have present: "?both ''business_name'' = Some (PStr []) \<and> ?both ''vat_number'' = Some (PStr [])"
    by simp
  have rest: "?both(''business_name'' := None, ''vat_number'' := None) = Map.empty"
    by (simp add: fun_eq_iff)
  have client: "gomanage_client sample_info = Some sample_client"
    by (simp add: sample_info_def)
  have ev: "events_since sample_info (snd (mutate sample_info (PStr []) (PStr []) Map.empty))
     = [CreateCustomerCall (customer_data_of (PStr []) (PStr []) Map.empty),
        CacheDelete ''customers_100_all'', CacheDelete ''customers_1000_all'']"
    "success (fst (mutate sample_info (PStr []) (PStr []) Map.empty))"
    by (simp_all add: mutate_defs events_since_def sample_info_def sample_client_def
        empty_store_def)
  from C9_required_arguments[of ?one sample_info] missing
  have "\<exists>m. call_mutate sample_info ?one = Inl (TypeError m)" by blast
  then have a: "call_mutate sample_info ?one = Inl (TypeError ''mutate() missing required argument'')"
    by (auto simp: call_mutate_def)
  from C9_required_arguments[of ?both sample_info] present
  have "call_mutate sample_info ?both
      = Inr (mutate sample_info (PStr []) (PStr [])
               (?both(''business_name'' := None, ''vat_number'' := None)))"
    by blast
  with rest have b: "call_mutate sample_info ?both
      = Inr (mutate sample_info (PStr []) (PStr []) Map.empty)"
    by simp
  from C9_required_arguments[of ?both sample_info "PStr []" "PStr []" Map.empty] client
  have "CreateCustomerCall (customer_data_of (PStr []) (PStr []) Map.empty)
      \<in> set (events_since sample_info (snd (mutate sample_info (PStr []) (PStr []) Map.empty)))"
    by blast
  with a b client ev show ?thesis by blast
qed

end
